theory Spec2Isabelle
  imports Main "HOL-Library.Char_ord" "HOL-Library.List_Lexorder"
begin

section \<open>Shared vocabulary\<close>

text \<open>
  Identifiers are JavaScript strings.  They are modelled as \<open>string\<close> (lists of
  characters ordered by their code, \<open>Char_ord\<close>); the order on them
  (\<open>List_Lexorder\<close>) is the lexicographic order by code unit with a proper prefix
  below its extensions, which is what the JavaScript operator \<open>>\<close> computes on two
  strings.  A media stream is a heap object; it is referred to by a reference.
\<close>

type_synonym ws_id = string
type_synonym conn_id = string
type_synonym stream_ref = nat

datatype js_error =
    Error string
  | TypeError

text \<open>
  A call either returns the new state (\<open>Inr\<close>) or throws; a throw carries the
  state reached when it was raised (\<open>Inl\<close>).
\<close>

type_synonym 's result = "(js_error \<times> 's) + 's"

text \<open>A value of type \<open>string | null\<close> is truthy when it is a non-empty string.\<close>

definition truthy :: "string option \<Rightarrow> bool" where
  "truthy v = (case v of None \<Rightarrow> False | Some s \<Rightarrow> s \<noteq> [])"

text \<open>A sequence of calls, each on the state the previous one returned; a throw ends it.\<close>

fun run_all :: "('a \<Rightarrow> 's \<Rightarrow> 's result) \<Rightarrow> 'a list \<Rightarrow> 's \<Rightarrow> 's result" where
  "run_all f [] s = Inr s"
| "run_all f (x # xs) s =
     (case f x s of Inl e \<Rightarrow> Inl e | Inr s' \<Rightarrow> run_all f xs s')"

definition and_then :: "'s result \<Rightarrow> ('s \<Rightarrow> 's result) \<Rightarrow> 's result" where
  "and_then r f = (case r of Inl e \<Rightarrow> Inl e | Inr s \<Rightarrow> f s)"

text \<open>The state a call leaves behind, whether it returned or threw.\<close>

definition state_of :: "'s result \<Rightarrow> 's" where
  "state_of r = (case r of Inl (e, s) \<Rightarrow> s | Inr s \<Rightarrow> s)"

datatype FileTransferStatus =
    NOT_DECIDED_YET
  | DECLINED_BY_OPPONENT
  | DECLINED_BY_YOU
  | FINISHED
  | ERROR
  | IN_PROGRESS

subsection \<open>Subscription keys and messages\<close>

text \<open>
  Modelled from the spec: the class \<open>Subscription\<close> and the router \<open>sub\<close> are not
  among the sources.  The spec gives two key families, one scoped to a session
  (\<open>connectionId\<close>) and one scoped to a session and an opponent
  (\<open>connectionId:opponentId\<close>).  The keys are kept symbolic.  The connection id is
  passed as the handler holds it (possibly \<open>null\<close>).
\<close>

datatype handler_key =
    TransferKey "conn_id option"
  | PeerConnectionKey "conn_id option" ws_id

definition getTransferId :: "conn_id option \<Rightarrow> handler_key" where
  "getTransferId c = TransferKey c"

definition getPeerConnectionId :: "conn_id option \<Rightarrow> ws_id \<Rightarrow> handler_key" where
  "getPeerConnectionId c opp = PeerConnectionKey c opp"

datatype sub_message =
    connectToRemote handler_key "stream_ref option"
  | streamChanged handler_key stream_ref "stream_ref option"
  | removePeerConnection handler_key ws_id

text \<open>
  In \<open>connectToRemote h s\<close> the second field is \<open>stream\<close>; in
  \<open>streamChanged h n o\<close> the fields are \<open>newStream\<close> and \<open>oldStream\<close>, in
  this order.
\<close>

section \<open>setMediaBitrate\<close>

text \<open>
  \<open>js_split c s\<close> is \<open>s.split(c)\<close> for a one-character separator and
  \<open>js_join sep ls\<close> is \<open>ls.join(sep)\<close>.  \<open>startsWith l p\<close> is the test
  \<open>l.indexOf(p) === 0\<close>.
\<close>

definition newline :: char where
  "newline = CHR 0x0A"

fun js_split :: "char \<Rightarrow> string \<Rightarrow> string list" where
  "js_split c [] = [[]]"
| "js_split c (x # xs) =
     (if x = c then [] # js_split c xs
      else (case js_split c xs of
              [] \<Rightarrow> [[x]]
            | l # ls \<Rightarrow> (x # l) # ls))"

fun js_join :: "string \<Rightarrow> string list \<Rightarrow> string" where
  "js_join sep [] = []"
| "js_join sep [l] = l"
| "js_join sep (l # ls) = l @ sep @ js_join sep ls"

definition startsWith :: "string \<Rightarrow> string \<Rightarrow> bool" where
  "startsWith l p = (take (length p) l = p)"

text \<open>
  The \<open>for\<close> loop that looks for the first line starting with \<open>m=\<close>, from index
  \<open>i\<close> on: it yields the index after that line, or \<open>None\<close> where the code keeps
  \<open>line === -1\<close>.
\<close>

function find_m_line :: "string list \<Rightarrow> nat \<Rightarrow> nat option" where
  "find_m_line lines i =
     (if i < length lines then
        (if startsWith (lines ! i) ''m='' then Some (i + 1) else find_m_line lines (i + 1))
      else None)"
  by pat_completeness auto
termination
  by (relation "measure (\<lambda>(lines, i). length lines - i)") auto

text \<open>
  The \<open>while\<close> loop that skips the \<open>i=\<close> and \<open>c=\<close> lines.  It reads
  \<open>lines[line]\<close> without a bound: past the last line that is \<open>undefined\<close>, and
  \<open>undefined.indexOf\<close> throws a \<open>TypeError\<close>.
\<close>

function skip_i_and_c :: "string list \<Rightarrow> nat \<Rightarrow> js_error + nat" where
  "skip_i_and_c lines line =
     (if line < length lines then
        (if startsWith (lines ! line) ''i='' \<or> startsWith (lines ! line) ''c=''
         then skip_i_and_c lines (line + 1) else Inr line)
      else Inl TypeError)"
  by pat_completeness auto
termination
  by (relation "measure (\<lambda>(lines, line). length lines - line)") auto

text \<open>
  The bitrate is a non-negative integer (the callers pass 1638400); appended to a
  string it is written in decimal digits.
\<close>

definition digit :: "nat \<Rightarrow> char" where
  "digit d = ''0123456789'' ! d"

function string_of_nat :: "nat \<Rightarrow> string" where
  "string_of_nat n =
     (if n < 10 then [digit n] else string_of_nat (n div 10) @ [digit (n mod 10)])"
  by pat_completeness auto
termination
  by (relation "measure id") auto

declare find_m_line.simps [simp del]
declare skip_i_and_c.simps [simp del]
declare string_of_nat.simps [simp del]

definition setMediaBitrate :: "string \<Rightarrow> nat \<Rightarrow> js_error + string" where
  "setMediaBitrate sdp bitrate =
     (let lines = js_split newline sdp
      in case find_m_line lines 0 of
           None \<Rightarrow> Inr sdp
         | Some line0 \<Rightarrow>
             (case skip_i_and_c lines line0 of
                Inl e \<Rightarrow> Inl e
              | Inr line \<Rightarrow>
                  if startsWith (lines ! line) ''b''
                  then Inr (js_join [newline] (lines[line := ''b=AS:'' @ string_of_nat bitrate]))
                  else Inr (js_join [newline]
                         (take line lines @ [''b=AS:'' @ string_of_nat bitrate]
                          @ drop line lines))))"

definition i_or_c :: "string \<Rightarrow> bool" where
  "i_or_c l = (startsWith l ''i='' \<or> startsWith l ''c='')"

definition sampleSdpText :: string where
  "sampleSdpText = ''v=0\<newline>m=audio 9 RTP/AVP 0\<newline>c=IN IP4 0.0.0.0\<newline>a=sendrecv\<newline>''"

section \<open>The store\<close>

text \<open>
  The store is modelled by the component that holds the call flags, \<open>roomsDict\<close>,
  together with the media objects and the counter behind \<open>mediaLinkIdGetter\<close>.
  The other components of \<open>DefaultStore\<close> (growls, devices, users, the active
  room and the like) are left out: no mutation reads them to decide what it writes to
  a room.  Calls to \<open>this.storage\<close> are left out as well.  The records follow the
  interfaces of the model file; a field name carries a prefix where the plain name is
  used elsewhere.  Numbers are integers.
\<close>

type_synonym media_ref = nat
type_synonym media_key = nat

record UploadProgressModel =
  up_total :: int
  up_uploaded :: int

record MessageTransferInfo =
  mti_upload :: "UploadProgressModel option"
  mti_error :: "string option"

record FileModel =
  file_id :: "int option"
  file_url :: "string option"
  file_type :: string
  file_preview :: "string option"

record MessageModel =
  msg_id :: int
  msg_time :: int
  msg_files :: "(string \<rightharpoonup> FileModel) option"
  msg_content :: "string option"
  msg_symbol :: "string option"
  msg_deleted :: bool
  msg_giphy :: "string option"
  msg_edited :: "int option"
  msg_roomId :: int
  msg_userId :: int
  msg_transfer :: "MessageTransferInfo option"

record SearchModel =
  searchActive :: bool
  searchedIds :: "int list"
  searchText :: string
  locked :: bool

record ChangeOnline =
  co_userId :: int
  isWentOnline :: bool
  co_time :: int

record SendingFileTransfer =
  sft_status :: FileTransferStatus
  sft_userId :: int
  sft_upload :: UploadProgressModel
  sft_error :: "string option"

record ReceivingFile =
  rf_time :: int
  rf_upload :: UploadProgressModel
  rf_status :: FileTransferStatus
  rf_fileName :: string
  rf_opponentWsId :: ws_id
  rf_roomId :: int
  rf_connId :: conn_id
  rf_anchor :: "string option"
  rf_error :: "string option"
  rf_userId :: int

record SendingFile =
  sf_time :: int
  sf_fileName :: string
  sf_roomId :: int
  sf_connId :: conn_id
  sf_fileSize :: int
  sf_transfers :: "string \<rightharpoonup> SendingFileTransfer"

record CallInfoModel =
  call_mediaStreamLink :: "media_key option"
  call_connected :: bool
  call_userId :: int
  opponentCurrentVoice :: int

record CallsInfoModel =
  calls :: "ws_id \<rightharpoonup> CallInfoModel"
  callContainer :: bool
  ci_showMic :: bool
  currentMicLevel :: int
  ci_mediaStreamLink :: "media_key option"
  currentMic :: "string option"
  currentSpeaker :: "string option"
  currentWebcam :: "string option"
  ci_showVideo :: bool
  ci_shareScreen :: bool
  callActive :: bool

record RoomSettingsModel =
  room_id :: int
  room_name :: string
  room_notifications :: bool
  room_volume :: int

record RoomModel = RoomSettingsModel +
  room_users :: "int list"
  callInfo :: CallsInfoModel
  sendingFiles :: "conn_id \<rightharpoonup> SendingFile"
  receivingFiles :: "conn_id \<rightharpoonup> ReceivingFile"
  room_messages :: "int \<rightharpoonup> MessageModel"
  allLoaded :: bool
  room_search :: SearchModel
  newMessagesCount :: int
  changeOnline :: "ChangeOnline list"

datatype SexModelString = Secret | Male | Female

record Location =
  city :: "string option"
  country :: "string option"
  countryCode :: "string option"
  region :: "string option"

record UserModel =
  user_name :: string
  user_id :: int
  user_sex :: SexModelString
  user_location :: Location

text \<open>
  The mutations that touch no room are kept in one constructor, \<open>Other\<close>; their
  payloads are left out.
\<close>

datatype other_mutation =
    SetStorage | SetIncomingCall | SetDim | SetDevices | SetEditedMessage
  | SetActiveUserId | SetIsOnline | AddGrowl | RemoveGrowl | SetRegHeader
  | SetOnline | SetUsers | SetUser | SetUserInfo | SetUserSettings | SetUserImage

datatype mutation =
    SetMessageProgress int int int
  | SetUploadProgress int int UploadProgressModel
  | SetCallOpponent int ws_id "CallInfoModel option"
  | SetOpponentVoice int ws_id int
  | SetOpponentAnchor int ws_id media_ref
  | AddSendingFile SendingFile
  | ToggleContainer int
  | SetContainerToState int bool
  | SetCurrentMicLevel int int
  | SetCurrentMic int "string option"
  | SetCurrentSpeaker int "string option"
  | SetCurrentWebcam int "string option"
  | SetMicToState int bool
  | SetVideoToState int bool
  | SetShareScreenToState int bool
  | SetCallActiveToState int bool
  | SetLocalStreamSrc int "media_ref option"
  | AddReceivingFile ReceivingFile
  | AddSendingFileTransfer int conn_id string SendingFileTransfer
  | SetReceivingFileStatus int conn_id FileTransferStatus "string option option" "string option option"
  | SetSendingFileStatus int conn_id string FileTransferStatus "string option option"
  | SetSendingFileUploaded int conn_id string int
  | SetReceivingFileUploaded int conn_id int
  | IncNewMessagesCount int
  | RemoveMessageProgress int int
  | SetMessageProgressError int int "string option"
  | AddMessage MessageModel
  | DeleteMessage int int
  | AddMessages int "MessageModel list"
  | SetSearchTo int SearchModel
  | SetAllLoaded int
  | SetRoomSettings RoomSettingsModel
  | ClearMessages
  | DeleteRoom int
  | SetRoomsUsers int "int list"
  | SetActiveRoomId int
  | AddUser UserModel
  | AddChangeOnlineEntry "int list" ChangeOnline
  | SetRooms "int \<rightharpoonup> RoomModel"
  | Init "int \<rightharpoonup> RoomModel"
  | AddRoom RoomModel
  | Logout
  | Other other_mutation

record DefaultStore =
  roomsDict :: "int \<rightharpoonup> RoomModel"
  mediaObjects :: "media_key \<rightharpoonup> media_ref option"
  mediaLinkId :: nat

text \<open>
  The decorator \<open>Validate\<close> runs the mutation and replaces whatever it throws by an
  \<open>Error\<close> naming the mutation.
\<close>

definition Validate :: "string \<Rightarrow> 's result \<Rightarrow> 's result" where
  "Validate propertyKey r =
     (case r of Inl (e, s) \<Rightarrow> Inl (Error (''store.'' @ propertyKey), s) | Inr s \<Rightarrow> Inr s)"

text \<open>
  \<open>onRoom rid f\<close> is a write to \<open>this.roomsDict[rid]\<close>: reading a property of a
  room that is not there throws a \<open>TypeError\<close> and leaves the store as it is.  The
  other combinators reach into a room in the same way.
\<close>

definition onRoom ::
  "int \<Rightarrow> (RoomModel \<Rightarrow> js_error + RoomModel) \<Rightarrow> DefaultStore \<Rightarrow> DefaultStore result" where
  "onRoom rid f st =
     (case roomsDict st rid of
        None \<Rightarrow> Inl (TypeError, st)
      | Some r \<Rightarrow>
          (case f r of
             Inl e \<Rightarrow> Inl (e, st)
           | Inr r' \<Rightarrow> Inr (st\<lparr>roomsDict := (roomsDict st)(rid \<mapsto> r')\<rparr>)))"

definition onCallInfo ::
  "int \<Rightarrow> (CallsInfoModel \<Rightarrow> js_error + CallsInfoModel) \<Rightarrow> DefaultStore
   \<Rightarrow> DefaultStore result" where
  "onCallInfo rid g =
     onRoom rid (\<lambda>r. case g (callInfo r) of
                        Inl e \<Rightarrow> Inl e
                      | Inr ci \<Rightarrow> Inr (r\<lparr>callInfo := ci\<rparr>))"

definition onMessage ::
  "int \<Rightarrow> int \<Rightarrow> (MessageModel \<Rightarrow> js_error + MessageModel) \<Rightarrow> DefaultStore
   \<Rightarrow> DefaultStore result" where
  "onMessage rid mid f =
     onRoom rid (\<lambda>r. case room_messages r mid of
                        None \<Rightarrow> Inl TypeError
                      | Some m \<Rightarrow>
                          (case f m of
                             Inl e \<Rightarrow> Inl e
                           | Inr m' \<Rightarrow> Inr (r\<lparr>room_messages := (room_messages r)(mid \<mapsto> m')\<rparr>)))"

definition onCall ::
  "int \<Rightarrow> ws_id \<Rightarrow> (CallInfoModel \<Rightarrow> CallInfoModel) \<Rightarrow> DefaultStore
   \<Rightarrow> DefaultStore result" where
  "onCall rid opp f =
     onCallInfo rid (\<lambda>ci. case calls ci opp of
                             None \<Rightarrow> Inl TypeError
                           | Some c \<Rightarrow> Inr (ci\<lparr>calls := (calls ci)(opp \<mapsto> f c)\<rparr>))"

definition onSendingTransfer ::
  "int \<Rightarrow> conn_id \<Rightarrow> string \<Rightarrow> (SendingFileTransfer \<Rightarrow> SendingFileTransfer)
   \<Rightarrow> DefaultStore \<Rightarrow> DefaultStore result" where
  "onSendingTransfer rid cid tid f =
     onRoom rid (\<lambda>r. case sendingFiles r cid of
                        None \<Rightarrow> Inl TypeError
                      | Some sf \<Rightarrow>
                          (case sf_transfers sf tid of
                             None \<Rightarrow> Inl TypeError
                           | Some t \<Rightarrow>
                               Inr (r\<lparr>sendingFiles := (sendingFiles r)
                                      (cid \<mapsto> sf\<lparr>sf_transfers := (sf_transfers sf)(tid \<mapsto> f t)\<rparr>)\<rparr>)))"

definition onReceivingFile ::
  "int \<Rightarrow> conn_id \<Rightarrow> (ReceivingFile \<Rightarrow> ReceivingFile) \<Rightarrow> DefaultStore
   \<Rightarrow> DefaultStore result" where
  "onReceivingFile rid cid f =
     onRoom rid (\<lambda>r. case receivingFiles r cid of
                        None \<Rightarrow> Inl TypeError
                      | Some rf \<Rightarrow> Inr (r\<lparr>receivingFiles := (receivingFiles r)(cid \<mapsto> f rf)\<rparr>))"

subsection \<open>Mutations\<close>

definition setMessageProgress :: "int \<Rightarrow> int \<Rightarrow> int \<Rightarrow> DefaultStore \<Rightarrow> DefaultStore result" where
  "setMessageProgress roomId messageId uploaded =
     onMessage roomId messageId (\<lambda>m.
       case msg_transfer m of
         None \<Rightarrow> Inl (Error ''Transfer upload doesn't exist'')
       | Some t \<Rightarrow>
           (case mti_upload t of
              None \<Rightarrow> Inl (Error ''Transfer upload doesn't exist'')
            | Some u \<Rightarrow>
                Inr (m\<lparr>msg_transfer := Some (t\<lparr>mti_upload := Some (u\<lparr>up_uploaded := uploaded\<rparr>)\<rparr>)\<rparr>)))"

definition setUploadProgress ::
  "int \<Rightarrow> int \<Rightarrow> UploadProgressModel \<Rightarrow> DefaultStore \<Rightarrow> DefaultStore result" where
  "setUploadProgress roomId messageId upload =
     onMessage roomId messageId (\<lambda>m.
       case msg_transfer m of
         None \<Rightarrow> Inl (Error ''Transfer upload doesn't exist'')
       | Some t \<Rightarrow> Inr (m\<lparr>msg_transfer := Some (t\<lparr>mti_upload := Some upload\<rparr>)\<rparr>))"

definition setCallOpponent ::
  "int \<Rightarrow> ws_id \<Rightarrow> CallInfoModel option \<Rightarrow> DefaultStore \<Rightarrow> DefaultStore result" where
  "setCallOpponent roomId opp callInfoModel st =
     Validate ''setCallOpponent''
       (onCallInfo roomId (\<lambda>ci. Inr (ci\<lparr>calls := (calls ci)(opp := callInfoModel)\<rparr>)) st)"

definition setOpponentVoice :: "int \<Rightarrow> ws_id \<Rightarrow> int \<Rightarrow> DefaultStore \<Rightarrow> DefaultStore result" where
  "setOpponentVoice roomId opp voice st =
     Validate ''setOpponentVoice''
       (onCall roomId opp (\<lambda>c. c\<lparr>opponentCurrentVoice := voice\<rparr>) st)"

definition setOpponentAnchor ::
  "int \<Rightarrow> ws_id \<Rightarrow> media_ref \<Rightarrow> DefaultStore \<Rightarrow> DefaultStore result" where
  "setOpponentAnchor roomId opp anchor st =
     (let key = mediaLinkId st;
          st1 = st\<lparr>mediaLinkId := Suc key\<rparr>
      in case onCall roomId opp (\<lambda>c. c\<lparr>call_mediaStreamLink := Some key\<rparr>) st1 of
           Inl e \<Rightarrow> Inl e
         | Inr st2 \<Rightarrow> Inr (st2\<lparr>mediaObjects := (mediaObjects st2)(key \<mapsto> Some anchor)\<rparr>))"

definition addSendingFile :: "SendingFile \<Rightarrow> DefaultStore \<Rightarrow> DefaultStore result" where
  "addSendingFile payload =
     onRoom (sf_roomId payload)
       (\<lambda>r. Inr (r\<lparr>sendingFiles := (sendingFiles r)(sf_connId payload \<mapsto> payload)\<rparr>))"

definition toggleContainer :: "int \<Rightarrow> DefaultStore \<Rightarrow> DefaultStore result" where
  "toggleContainer roomId =
     onCallInfo roomId (\<lambda>ci. Inr (ci\<lparr>callContainer := \<not> callContainer ci\<rparr>))"

definition setContainerToState :: "int \<Rightarrow> bool \<Rightarrow> DefaultStore \<Rightarrow> DefaultStore result" where
  "setContainerToState rid state = onCallInfo rid (\<lambda>ci. Inr (ci\<lparr>callContainer := state\<rparr>))"

definition setCurrentMicLevel :: "int \<Rightarrow> int \<Rightarrow> DefaultStore \<Rightarrow> DefaultStore result" where
  "setCurrentMicLevel rid state = onCallInfo rid (\<lambda>ci. Inr (ci\<lparr>currentMicLevel := state\<rparr>))"

definition setCurrentMic :: "int \<Rightarrow> string option \<Rightarrow> DefaultStore \<Rightarrow> DefaultStore result" where
  "setCurrentMic rid state = onCallInfo rid (\<lambda>ci. Inr (ci\<lparr>currentMic := state\<rparr>))"

definition setCurrentSpeaker :: "int \<Rightarrow> string option \<Rightarrow> DefaultStore \<Rightarrow> DefaultStore result" where
  "setCurrentSpeaker rid state = onCallInfo rid (\<lambda>ci. Inr (ci\<lparr>currentSpeaker := state\<rparr>))"

definition setCurrentWebcam :: "int \<Rightarrow> string option \<Rightarrow> DefaultStore \<Rightarrow> DefaultStore result" where
  "setCurrentWebcam rid state = onCallInfo rid (\<lambda>ci. Inr (ci\<lparr>currentWebcam := state\<rparr>))"

definition setMicToState :: "int \<Rightarrow> bool \<Rightarrow> DefaultStore \<Rightarrow> DefaultStore result" where
  "setMicToState rid state = onCallInfo rid (\<lambda>ci. Inr (ci\<lparr>ci_showMic := state\<rparr>))"

definition setVideoToState :: "int \<Rightarrow> bool \<Rightarrow> DefaultStore \<Rightarrow> DefaultStore result" where
  "setVideoToState rid state =
     onCallInfo rid (\<lambda>ci. Inr (ci\<lparr>ci_showVideo := state, ci_shareScreen := False\<rparr>))"

definition setShareScreenToState :: "int \<Rightarrow> bool \<Rightarrow> DefaultStore \<Rightarrow> DefaultStore result" where
  "setShareScreenToState rid state =
     onCallInfo rid (\<lambda>ci. Inr (ci\<lparr>ci_shareScreen := state, ci_showVideo := False\<rparr>))"

definition setCallActiveToState :: "int \<Rightarrow> bool \<Rightarrow> DefaultStore \<Rightarrow> DefaultStore result" where
  "setCallActiveToState rid state = onCallInfo rid (\<lambda>ci. Inr (ci\<lparr>callActive := state\<rparr>))"

definition setLocalStreamSrc ::
  "int \<Rightarrow> media_ref option \<Rightarrow> DefaultStore \<Rightarrow> DefaultStore result" where
  "setLocalStreamSrc rid media st =
     (let key = mediaLinkId st;
          st1 = st\<lparr>mediaLinkId := Suc key, mediaObjects := (mediaObjects st)(key \<mapsto> media)\<rparr>
      in Validate ''setLocalStreamSrc''
           (onCallInfo rid (\<lambda>ci. Inr (ci\<lparr>ci_mediaStreamLink := Some key\<rparr>)) st1))"

definition addReceivingFile :: "ReceivingFile \<Rightarrow> DefaultStore \<Rightarrow> DefaultStore result" where
  "addReceivingFile payload =
     onRoom (rf_roomId payload)
       (\<lambda>r. Inr (r\<lparr>receivingFiles := (receivingFiles r)(rf_connId payload \<mapsto> payload)\<rparr>))"

definition addSendingFileTransfer ::
  "int \<Rightarrow> conn_id \<Rightarrow> string \<Rightarrow> SendingFileTransfer \<Rightarrow> DefaultStore \<Rightarrow> DefaultStore result" where
  "addSendingFileTransfer roomId connId transferId transfer st =
     Validate ''addSendingFileTransfer''
       (onRoom roomId (\<lambda>r. case sendingFiles r connId of
                             None \<Rightarrow> Inl TypeError
                           | Some sf \<Rightarrow>
                               Inr (r\<lparr>sendingFiles := (sendingFiles r)
                                      (connId \<mapsto> sf\<lparr>sf_transfers :=
                                         (sf_transfers sf)(transferId \<mapsto> transfer)\<rparr>)\<rparr>)) st)"

definition setReceivingFileStatus ::
  "int \<Rightarrow> conn_id \<Rightarrow> FileTransferStatus \<Rightarrow> string option option \<Rightarrow> string option option
   \<Rightarrow> DefaultStore \<Rightarrow> DefaultStore result" where
  "setReceivingFileStatus roomId connId status error anchor =
     onReceivingFile roomId connId (\<lambda>rf.
       rf\<lparr>rf_status := status,
          rf_error := (case error of None \<Rightarrow> rf_error rf | Some e \<Rightarrow> e),
          rf_anchor := (case anchor of None \<Rightarrow> rf_anchor rf | Some a \<Rightarrow> a)\<rparr>)"

definition setSendingFileStatus ::
  "int \<Rightarrow> conn_id \<Rightarrow> string \<Rightarrow> FileTransferStatus \<Rightarrow> string option option
   \<Rightarrow> DefaultStore \<Rightarrow> DefaultStore result" where
  "setSendingFileStatus roomId connId transfer status error st =
     Validate ''setSendingFileStatus''
       (onSendingTransfer roomId connId transfer (\<lambda>t.
          t\<lparr>sft_status := status,
            sft_error := (case error of None \<Rightarrow> sft_error t | Some e \<Rightarrow> e)\<rparr>) st)"

definition setSendingFileUploaded ::
  "int \<Rightarrow> conn_id \<Rightarrow> string \<Rightarrow> int \<Rightarrow> DefaultStore \<Rightarrow> DefaultStore result" where
  "setSendingFileUploaded roomId connId transfer uploaded =
     onSendingTransfer roomId connId transfer
       (\<lambda>t. t\<lparr>sft_upload := (sft_upload t)\<lparr>up_uploaded := uploaded\<rparr>\<rparr>)"

definition setReceivingFileUploaded ::
  "int \<Rightarrow> conn_id \<Rightarrow> int \<Rightarrow> DefaultStore \<Rightarrow> DefaultStore result" where
  "setReceivingFileUploaded roomId connId uploaded =
     onReceivingFile roomId connId
       (\<lambda>rf. rf\<lparr>rf_upload := (rf_upload rf)\<lparr>up_uploaded := uploaded\<rparr>\<rparr>)"

definition incNewMessagesCount :: "int \<Rightarrow> DefaultStore \<Rightarrow> DefaultStore result" where
  "incNewMessagesCount roomId =
     onRoom roomId (\<lambda>r. Inr (r\<lparr>newMessagesCount := newMessagesCount r + 1\<rparr>))"

definition removeMessageProgress :: "int \<Rightarrow> int \<Rightarrow> DefaultStore \<Rightarrow> DefaultStore result" where
  "removeMessageProgress roomId messageId =
     onMessage roomId messageId (\<lambda>m.
       case msg_transfer m of
         None \<Rightarrow> Inl TypeError
       | Some t \<Rightarrow> Inr (m\<lparr>msg_transfer := Some (t\<lparr>mti_upload := None\<rparr>)\<rparr>))"

definition setMessageProgressError ::
  "int \<Rightarrow> int \<Rightarrow> string option \<Rightarrow> DefaultStore \<Rightarrow> DefaultStore result" where
  "setMessageProgressError roomId messageId error =
     onMessage roomId messageId (\<lambda>m.
       case msg_transfer m of
         None \<Rightarrow> Inl TypeError
       | Some t \<Rightarrow> Inr (m\<lparr>msg_transfer := Some (t\<lparr>mti_error := error\<rparr>)\<rparr>))"

definition addMessage :: "MessageModel \<Rightarrow> DefaultStore \<Rightarrow> DefaultStore result" where
  "addMessage m =
     onRoom (msg_roomId m) (\<lambda>r. Inr (r\<lparr>room_messages := (room_messages r)(msg_id m \<mapsto> m)\<rparr>))"

definition deleteMessage :: "int \<Rightarrow> int \<Rightarrow> DefaultStore \<Rightarrow> DefaultStore result" where
  "deleteMessage roomId messageId =
     onRoom roomId (\<lambda>r. Inr (r\<lparr>room_messages := (room_messages r)(messageId := None)\<rparr>))"

definition addMessages :: "int \<Rightarrow> MessageModel list \<Rightarrow> DefaultStore \<Rightarrow> DefaultStore result" where
  "addMessages roomId messages =
     onRoom roomId (\<lambda>r. Inr (r\<lparr>room_messages :=
       foldl (\<lambda>om m. om(msg_id m \<mapsto> m)) (room_messages r) messages\<rparr>))"

definition setSearchTo :: "int \<Rightarrow> SearchModel \<Rightarrow> DefaultStore \<Rightarrow> DefaultStore result" where
  "setSearchTo roomId search = onRoom roomId (\<lambda>r. Inr (r\<lparr>room_search := search\<rparr>))"

definition setAllLoaded :: "int \<Rightarrow> DefaultStore \<Rightarrow> DefaultStore result" where
  "setAllLoaded roomId = onRoom roomId (\<lambda>r. Inr (r\<lparr>allLoaded := True\<rparr>))"

definition setRoomSettings :: "RoomSettingsModel \<Rightarrow> DefaultStore \<Rightarrow> DefaultStore result" where
  "setRoomSettings srm =
     onRoom (room_id srm) (\<lambda>room. Inr (room\<lparr>room_notifications := room_notifications srm,
                                               room_volume := room_volume srm,
                                               room_name := room_name srm\<rparr>))"

definition clearMessages :: "DefaultStore \<Rightarrow> DefaultStore result" where
  "clearMessages st =
     Inr (st\<lparr>roomsDict :=
       (\<lambda>k. map_option (\<lambda>r. r\<lparr>room_messages := Map.empty\<rparr>) (roomsDict st k))\<rparr>)"

definition deleteRoom :: "int \<Rightarrow> DefaultStore \<Rightarrow> DefaultStore result" where
  "deleteRoom roomId st = Inr (st\<lparr>roomsDict := (roomsDict st)(roomId := None)\<rparr>)"

definition setRoomsUsers :: "int \<Rightarrow> int list \<Rightarrow> DefaultStore \<Rightarrow> DefaultStore result" where
  "setRoomsUsers roomId users = onRoom roomId (\<lambda>r. Inr (r\<lparr>room_users := users\<rparr>))"

definition setActiveRoomId :: "int \<Rightarrow> DefaultStore \<Rightarrow> DefaultStore result" where
  "setActiveRoomId rid st =
     (case roomsDict st rid of
        None \<Rightarrow> Inr st
      | Some r \<Rightarrow> Inr (st\<lparr>roomsDict := (roomsDict st)(rid \<mapsto> r\<lparr>newMessagesCount := 0\<rparr>)\<rparr>))"

definition addUser :: "int \<Rightarrow> UserModel \<Rightarrow> DefaultStore \<Rightarrow> DefaultStore result" where
  "addUser ALL_ROOM_ID u st =
     (case roomsDict st ALL_ROOM_ID of
        None \<Rightarrow> Inr st
      | Some r \<Rightarrow>
          if user_id u \<notin> set (room_users r)
          then Inr (st\<lparr>roomsDict := (roomsDict st)
                      (ALL_ROOM_ID \<mapsto> r\<lparr>room_users := room_users r @ [user_id u]\<rparr>)\<rparr>)
          else Inr st)"

definition addChangeOnlineEntry ::
  "int list \<Rightarrow> ChangeOnline \<Rightarrow> DefaultStore \<Rightarrow> DefaultStore result" where
  "addChangeOnlineEntry roomIds entry =
     run_all (\<lambda>r. onRoom r (\<lambda>room. Inr (room\<lparr>changeOnline := changeOnline room @ [entry]\<rparr>)))
       roomIds"

definition setRooms :: "(int \<rightharpoonup> RoomModel) \<Rightarrow> DefaultStore \<Rightarrow> DefaultStore result" where
  "setRooms rooms st = Inr (st\<lparr>roomsDict := rooms\<rparr>)"

definition init :: "(int \<rightharpoonup> RoomModel) \<Rightarrow> DefaultStore \<Rightarrow> DefaultStore result" where
  "init rooms st = Inr (st\<lparr>roomsDict := rooms\<rparr>)"

definition addRoom :: "RoomModel \<Rightarrow> DefaultStore \<Rightarrow> DefaultStore result" where
  "addRoom room st = Inr (st\<lparr>roomsDict := (roomsDict st)(room_id room \<mapsto> room)\<rparr>)"

definition logout :: "DefaultStore \<Rightarrow> DefaultStore result" where
  "logout st = Inr (st\<lparr>roomsDict := Map.empty\<rparr>)"

primrec commit :: "int \<Rightarrow> mutation \<Rightarrow> DefaultStore \<Rightarrow> DefaultStore result" where
  "commit a (SetMessageProgress r m u) = setMessageProgress r m u"
| "commit a (SetUploadProgress r m u) = setUploadProgress r m u"
| "commit a (SetCallOpponent r opp c) = setCallOpponent r opp c"
| "commit a (SetOpponentVoice r opp v) = setOpponentVoice r opp v"
| "commit a (SetOpponentAnchor r opp x) = setOpponentAnchor r opp x"
| "commit a (AddSendingFile f) = addSendingFile f"
| "commit a (ToggleContainer r) = toggleContainer r"
| "commit a (SetContainerToState r b) = setContainerToState r b"
| "commit a (SetCurrentMicLevel r n) = setCurrentMicLevel r n"
| "commit a (SetCurrentMic r s) = setCurrentMic r s"
| "commit a (SetCurrentSpeaker r s) = setCurrentSpeaker r s"
| "commit a (SetCurrentWebcam r s) = setCurrentWebcam r s"
| "commit a (SetMicToState r b) = setMicToState r b"
| "commit a (SetVideoToState r b) = setVideoToState r b"
| "commit a (SetShareScreenToState r b) = setShareScreenToState r b"
| "commit a (SetCallActiveToState r b) = setCallActiveToState r b"
| "commit a (SetLocalStreamSrc r m) = setLocalStreamSrc r m"
| "commit a (AddReceivingFile f) = addReceivingFile f"
| "commit a (AddSendingFileTransfer r c t x) = addSendingFileTransfer r c t x"
| "commit a (SetReceivingFileStatus r c s e x) = setReceivingFileStatus r c s e x"
| "commit a (SetSendingFileStatus r c t s e) = setSendingFileStatus r c t s e"
| "commit a (SetSendingFileUploaded r c t u) = setSendingFileUploaded r c t u"
| "commit a (SetReceivingFileUploaded r c u) = setReceivingFileUploaded r c u"
| "commit a (IncNewMessagesCount r) = incNewMessagesCount r"
| "commit a (RemoveMessageProgress r m) = removeMessageProgress r m"
| "commit a (SetMessageProgressError r m e) = setMessageProgressError r m e"
| "commit a (AddMessage m) = addMessage m"
| "commit a (DeleteMessage r m) = deleteMessage r m"
| "commit a (AddMessages r ms) = addMessages r ms"
| "commit a (SetSearchTo r s) = setSearchTo r s"
| "commit a (SetAllLoaded r) = setAllLoaded r"
| "commit a (SetRoomSettings s) = setRoomSettings s"
| "commit a ClearMessages = clearMessages"
| "commit a (DeleteRoom r) = deleteRoom r"
| "commit a (SetRoomsUsers r us) = setRoomsUsers r us"
| "commit a (SetActiveRoomId r) = setActiveRoomId r"
| "commit a (AddUser u) = addUser a u"
| "commit a (AddChangeOnlineEntry rs c) = addChangeOnlineEntry rs c"
| "commit a (SetRooms rooms) = setRooms rooms"
| "commit a (Init rooms) = init rooms"
| "commit a (AddRoom room) = addRoom room"
| "commit a Logout = logout"
| "commit a (Other m) = Inr"

subsection \<open>getRoomsBaseDict\<close>

definition getRoomsBaseDict ::
  "int \<Rightarrow> int \<Rightarrow> bool \<Rightarrow> string \<Rightarrow> int list \<Rightarrow> RoomModel option \<Rightarrow> RoomModel" where
  "getRoomsBaseDict roomId volume notifications name users oldRoom =
     \<lparr>room_id = roomId,
      room_name = name,
      room_notifications = notifications,
      room_volume = volume,
      room_users = users,
      callInfo =
        \<lparr>calls = Map.empty, callContainer = False, ci_showMic = True, currentMicLevel = 0,
         ci_mediaStreamLink = None, currentMic = None, currentSpeaker = None,
         currentWebcam = None, ci_showVideo = True, ci_shareScreen = False,
         callActive = False\<rparr>,
      sendingFiles = (case oldRoom of Some r \<Rightarrow> sendingFiles r | None \<Rightarrow> Map.empty),
      receivingFiles = (case oldRoom of Some r \<Rightarrow> receivingFiles r | None \<Rightarrow> Map.empty),
      room_messages = (case oldRoom of Some r \<Rightarrow> room_messages r | None \<Rightarrow> Map.empty),
      allLoaded = (case oldRoom of Some r \<Rightarrow> allLoaded r | None \<Rightarrow> False),
      room_search = (case oldRoom of
                       Some r \<Rightarrow> room_search r
                     | None \<Rightarrow> \<lparr>searchActive = False, searchedIds = [], searchText = [],
                                 locked = False\<rparr>),
      newMessagesCount = (case oldRoom of Some r \<Rightarrow> newMessagesCount r | None \<Rightarrow> 0),
      changeOnline = (case oldRoom of Some r \<Rightarrow> changeOnline r | None \<Rightarrow> [])\<rparr>"

subsection \<open>The call flags of the rooms\<close>

text \<open>
  \<open>flagsOk\<close> is the invariant: in no room are \<open>showVideo\<close> and \<open>shareScreen\<close>
  both set.  \<open>keepsFlags st st'\<close> says that every room of \<open>st'\<close> is a room of
  \<open>st\<close> with the same two flags.  \<open>payloadRooms\<close> are the room objects that a
  mutation takes from its payload and installs in the store.
\<close>

definition bothOn :: "RoomModel \<Rightarrow> bool" where
  "bothOn r = (ci_showVideo (callInfo r) \<and> ci_shareScreen (callInfo r))"

definition flagsOk :: "DefaultStore \<Rightarrow> bool" where
  "flagsOk st = (\<forall>r \<in> ran (roomsDict st). \<not> bothOn r)"

definition payloadRooms :: "mutation \<Rightarrow> RoomModel set" where
  "payloadRooms m =
     (case m of
        SetRooms rooms \<Rightarrow> ran rooms
      | Init rooms \<Rightarrow> ran rooms
      | AddRoom room \<Rightarrow> {room}
      | _ \<Rightarrow> {})"

definition keepsFlags :: "DefaultStore \<Rightarrow> DefaultStore \<Rightarrow> bool" where
  "keepsFlags st st' =
     (\<forall>rid r'. roomsDict st' rid = Some r' \<longrightarrow>
        (\<exists>r. roomsDict st rid = Some r
           \<and> ci_showVideo (callInfo r') = ci_showVideo (callInfo r)
           \<and> ci_shareScreen (callInfo r') = ci_shareScreen (callInfo r)))"

text \<open>
  A sequence of commits.  A mutation that throws leaves the store in the state it had
  reached, and the next commit works on that state.
\<close>

definition commit_all :: "int \<Rightarrow> mutation list \<Rightarrow> DefaultStore \<Rightarrow> DefaultStore" where
  "commit_all a ms st = foldl (\<lambda>s m. state_of (commit a m s)) st ms"

definition writesFlags :: "mutation \<Rightarrow> bool" where
  "writesFlags m =
     (case m of SetVideoToState r b \<Rightarrow> True | SetShareScreenToState r b \<Rightarrow> True | _ \<Rightarrow> False)"

definition installsRooms :: "mutation \<Rightarrow> bool" where
  "installsRooms m =
     (case m of SetRooms rooms \<Rightarrow> True | Init rooms \<Rightarrow> True | AddRoom room \<Rightarrow> True
      | _ \<Rightarrow> False)"

definition sampleStore :: DefaultStore where
  "sampleStore =
     \<lparr>roomsDict = [1 \<mapsto> getRoomsBaseDict 1 100 True ''main'' [7] None],
      mediaObjects = Map.empty, mediaLinkId = 0\<rparr>"

definition sampleRoomBothOn :: RoomModel where
  "sampleRoomBothOn =
     (getRoomsBaseDict 2 100 True ''side'' [7] None)
       \<lparr>callInfo := (callInfo (getRoomsBaseDict 2 100 True ''side'' [7] None))
          \<lparr>ci_shareScreen := True\<rparr>\<rparr>"

section \<open>CallHandler\<close>

datatype CallStatus = not_inited | sent_offer | received_offer | accepted

record OpponentMessage =
  opponentWsId :: ws_id

record ReplyCallMessage = OpponentMessage +
  userId :: int

record OfferCall = ReplyCallMessage +
  connId :: conn_id
  offerRoomId :: int

type_synonym track_ref = nat

datatype track_kind = audio | video

datatype track_state = live | ended

record MediaStreamTrack =
  kind :: track_kind
  readyState :: track_state
  enabled :: bool
  isShare :: bool

datatype peer_variant = CallSenderPeerConnection | CallReceiverPeerConnection

text \<open>
  What the handler does to its collaborators (the router, the relay, the store, the
  native tracks, the page router) is recorded in a trace, oldest entry first.
  \<open>logger.log\<close> and \<open>logger.debug\<close> lines are left out; \<open>logger.error\<close> is
  recorded.
\<close>

datatype effect =
    Notify sub_message
  | Subscribe handler_key
  | WsReplyCall conn_id
  | WsAcceptCall "conn_id option"
  | NewPeerConnection peer_variant "conn_id option" ws_id int
  | TrackStop track_ref
  | LoggerError string
  | GrowlErrorRaw "string list"
  | RouterReplace int
  | Store_setIncomingCall "(conn_id \<times> int \<times> int) option"
  | Store_setCallActiveToState bool int
  | Store_setContainerToState bool int
  | Store_setVideoToState bool int
  | Store_setMicToState bool int
  | Store_setLocalStreamSrc int stream_ref
  | Store_setDevices

record CallHandler =
  roomId :: int
  connectionId :: "conn_id option"
  webrtcConnnectionsIds :: "ws_id list"
  wsConnectionId :: ws_id
  localStream :: "stream_ref option"
  audioProcessor :: bool
  callStatus :: CallStatus
  acceptedPeers :: "ws_id list"
  showMic :: bool
  showVideo :: bool
  shareScreen :: bool
  streams :: "stream_ref \<Rightarrow> track_ref list"
  tracks :: "track_ref \<Rightarrow> MediaStreamTrack"
  effects :: "effect list"

text \<open>
  \<open>wsConnectionId\<close> is what \<open>wsHandler.getWsConnectionId()\<close> returns.
  \<open>showMic\<close>, \<open>showVideo\<close> and \<open>shareScreen\<close> are the flags of
  \<open>store.roomsDict[roomId].callInfo\<close> that the handler reads; \<open>streams\<close> and
  \<open>tracks\<close> are the heap of media objects (a stream lists its tracks, and a track
  may belong to two streams); \<open>audioProcessor\<close> says whether the audio-level
  callback is installed.
\<close>

definition emit :: "effect \<Rightarrow> CallHandler \<Rightarrow> CallHandler" where
  "emit e h = h\<lparr>effects := effects h @ [e]\<rparr>"

subsection \<open>createCallPeerConnection\<close>

text \<open>
  The test \<open>message.opponentWsId > this.wsHandler.getWsConnectionId()\<close> of
  \<open>createCallPeerConnection\<close>, as a function of the local and the opponent's id.
\<close>

definition peerVariant :: "ws_id \<Rightarrow> ws_id \<Rightarrow> peer_variant" where
  "peerVariant self opp =
     (if opp > self then CallSenderPeerConnection else CallReceiverPeerConnection)"

definition createCallPeerConnection ::
  "'a ReplyCallMessage_scheme \<Rightarrow> CallHandler \<Rightarrow> CallHandler" where
  "createCallPeerConnection message h =
     (let h1 = emit (NewPeerConnection (peerVariant (wsConnectionId h) (opponentWsId message))
                       (connectionId h) (opponentWsId message) (userId message)) h
      in h1\<lparr>webrtcConnnectionsIds := webrtcConnnectionsIds h1 @ [opponentWsId message]\<rparr>)"



subsection \<open>Capturing and releasing media\<close>

text \<open>
  The browser's answers to the capture requests are inputs of the model:
  \<open>getUserMedia\<close> is the outcome of \<open>navigator.mediaDevices.getUserMedia\<close> for
  microphone and camera, \<open>enumerateDevices\<close> the outcome of the device listing
  (\<open>None\<close> when the browser has no such call), and \<open>captureScreen\<close> the outcome of
  the whole screen capture, by \<open>getDisplayMedia\<close> or through the extension (the
  hint that is shown on the way through the extension is left out).
\<close>

record MediaEnv =
  getUserMedia :: "js_error + stream_ref"
  enumerateDevices :: "(js_error + unit) option"
  captureScreen :: "js_error + stream_ref"

definition getVideoTracks :: "CallHandler \<Rightarrow> stream_ref \<Rightarrow> track_ref list" where
  "getVideoTracks h s = filter (\<lambda>t. kind (tracks h t) = video) (streams h s)"

definition streamActive :: "CallHandler \<Rightarrow> stream_ref \<Rightarrow> bool" where
  "streamActive h s = list_ex (\<lambda>t. readyState (tracks h t) = live) (streams h s)"

text \<open>
  \<open>captureInput\<close> is two blocks in a row.  The first, \<open>captureInput\<close> itself,
  asks for microphone and camera if one of the two is wanted and lists the devices.
  The second, \<open>captureShare\<close>, adds the screen if it is wanted, and throws if no
  stream has resulted.
\<close>

definition captureShare ::
  "MediaEnv \<Rightarrow> stream_ref option \<Rightarrow> CallHandler \<Rightarrow> (js_error + stream_ref) \<times> CallHandler" where
  "captureShare env endStream h =
     (if shareScreen h then
        (case captureScreen env of
           Inl e \<Rightarrow> (Inl e, h)
         | Inr stream \<Rightarrow>
             (case getVideoTracks h stream of
                [] \<Rightarrow> (Inl (Error ''No video tracks from captured screen''), h)
              | t # ts \<Rightarrow>
                  (let h1 = h\<lparr>tracks := (tracks h)(t := (tracks h t)\<lparr>isShare := True\<rparr>)\<rparr>
                   in case endStream of
                        Some es \<Rightarrow>
                          (Inr es, h1\<lparr>streams := (streams h1)(es := streams h1 es @ [t])\<rparr>)
                      | None \<Rightarrow> (Inr stream, h1))))
      else
        (case endStream of
           None \<Rightarrow> (Inl (Error ''Unable to capture stream''), h)
         | Some es \<Rightarrow> (Inr es, h)))"

definition captureInput :: "MediaEnv \<Rightarrow> CallHandler \<Rightarrow> (js_error + stream_ref) \<times> CallHandler" where
  "captureInput env h =
     (if showMic h \<or> showVideo h then
        (case getUserMedia env of
           Inl e \<Rightarrow> (Inl e, h)
         | Inr s \<Rightarrow>
             (case enumerateDevices env of
                None \<Rightarrow> captureShare env (Some s) h
              | Some (Inl e) \<Rightarrow> (Inl e, h)
              | Some (Inr u) \<Rightarrow> captureShare env (Some s) (emit Store_setDevices h)))
      else captureShare env None h)"

definition destroyAudioProcessor :: "CallHandler \<Rightarrow> CallHandler" where
  "destroyAudioProcessor h = h\<lparr>audioProcessor := False\<rparr>"

definition stopTrack :: "CallHandler \<Rightarrow> track_ref \<Rightarrow> CallHandler" where
  "stopTrack h t =
     emit (TrackStop t) (h\<lparr>tracks := (tracks h)(t := (tracks h t)\<lparr>readyState := ended\<rparr>)\<rparr>)"

definition destroyStreamData :: "stream_ref option \<Rightarrow> CallHandler \<Rightarrow> CallHandler" where
  "destroyStreamData endStream h =
     (case endStream of
        None \<Rightarrow> h
      | Some s \<Rightarrow> foldl stopTrack h (streams h s))"

definition stopLocalStream :: "CallHandler \<Rightarrow> CallHandler" where
  "stopLocalStream h = destroyStreamData (localStream h) (destroyAudioProcessor h)"

definition attachLocalStream :: "stream_ref \<Rightarrow> CallHandler \<Rightarrow> CallHandler" where
  "attachLocalStream stream h =
     emit (Store_setLocalStreamSrc (roomId h) stream)
       (h\<lparr>localStream := Some stream, audioProcessor := True\<rparr>)"

definition handleStream :: "js_error \<Rightarrow> stream_ref option \<Rightarrow> CallHandler \<Rightarrow> CallHandler" where
  "handleStream e endStream h =
     (let what = (if showMic h then [''audio''] else [])
               @ (if showVideo h then [''video''] else [])
               @ (if shareScreen h then [''screenshare''] else []);
          h1 = destroyStreamData endStream h;
          h2 = emit (GrowlErrorRaw what) h1
      in emit (LoggerError ''onFailedCaptureSource'') h2)"

subsection \<open>onacceptCall\<close>

definition onacceptCall :: "'a OpponentMessage_scheme \<Rightarrow> CallHandler \<Rightarrow> CallHandler result" where
  "onacceptCall message h =
     (if callStatus h \<noteq> received_offer then
        (if \<not> truthy (connectionId h) then Inl (Error ''Conn is is null'', h)
         else Inr (emit (Notify (connectToRemote
                      (getPeerConnectionId (connectionId h) (opponentWsId message))
                      (localStream h))) h))
      else Inr (h\<lparr>acceptedPeers := acceptedPeers h @ [opponentWsId message]\<rparr>))"

subsection \<open>updateConnection\<close>

definition notifyStreamChanged :: "stream_ref \<Rightarrow> CallHandler \<Rightarrow> ws_id \<Rightarrow> CallHandler" where
  "notifyStreamChanged stream h pcName =
     emit (Notify (streamChanged (getPeerConnectionId (connectionId h) pcName)
                     stream (localStream h))) h"

definition updateConnection :: "MediaEnv \<Rightarrow> CallHandler \<Rightarrow> CallHandler" where
  "updateConnection env h =
     (case localStream h of
        None \<Rightarrow> h
      | Some ls \<Rightarrow>
          if streamActive h ls then
            (case captureInput env h of
               (Inl e, h1) \<Rightarrow> handleStream e None h1
             | (Inr stream, h1) \<Rightarrow>
                 (let h2 = stopLocalStream h1;
                      h3 = attachLocalStream stream h2
                  in foldl (notifyStreamChanged stream) h3 (webrtcConnnectionsIds h3)))
          else h)"

subsection \<open>initAndDisplayOffer\<close>

definition initAndDisplayOffer :: "'a OfferCall_scheme \<Rightarrow> CallHandler \<Rightarrow> CallHandler" where
  "initAndDisplayOffer message h =
     (let h1 = h\<lparr>callStatus := received_offer\<rparr>;
          h2 = (if truthy (connectionId h1)
                then emit (LoggerError ''Old connId still exists'') h1 else h1);
          h3 = h2\<lparr>connectionId := Some (connId message)\<rparr>;
          h4 = emit (Subscribe (getTransferId (Some (connId message)))) h3;
          h5 = emit (WsReplyCall (connId message)) h4;
          h6 = h5\<lparr>acceptedPeers := acceptedPeers h5 @ [opponentWsId message]\<rparr>;
          h7 = emit (Store_setIncomingCall
                       (Some (connId message, offerRoomId message, userId message))) h6
      in createCallPeerConnection message h7)"

subsection \<open>doAnswer\<close>

definition notifyConnectToRemote :: "CallHandler \<Rightarrow> ws_id \<Rightarrow> CallHandler" where
  "notifyConnectToRemote h e =
     emit (Notify (connectToRemote (getPeerConnectionId (connectionId h) e) (localStream h))) h"

definition doAnswer_before_capture :: "bool \<Rightarrow> CallHandler \<Rightarrow> CallHandler" where
  "doAnswer_before_capture withVideo h =
     (let h1 = emit (Store_setIncomingCall None) h;
          h2 = emit (Store_setCallActiveToState True (roomId h1)) h1;
          h3 = emit (Store_setContainerToState True (roomId h2)) h2;
          h4 = (emit (Store_setVideoToState withVideo (roomId h3)) h3)
                 \<lparr>showVideo := withVideo, shareScreen := False\<rparr>;
          h5 = (emit (Store_setMicToState True (roomId h4)) h4)\<lparr>showMic := True\<rparr>
      in h5\<lparr>callStatus := accepted\<rparr>)"

definition doAnswer :: "bool \<Rightarrow> MediaEnv \<Rightarrow> CallHandler \<Rightarrow> CallHandler result" where
  "doAnswer withVideo env h =
     (case captureInput env (doAnswer_before_capture withVideo h) of
        (Inl e, h7) \<Rightarrow> Inl (e, h7)
      | (Inr stream, h7) \<Rightarrow>
          (let h8 = attachLocalStream stream h7;
               h9 = emit (WsAcceptCall (connectionId h8)) h8;
               h10 = foldl notifyConnectToRemote h9 (acceptedPeers h9)
           in Inr (emit (RouterReplace (roomId h10)) h10)))"

text \<open>
  \<open>doAnswer_before_capture\<close> is the part of \<open>doAnswer\<close> that runs before
  \<open>await this.captureInput()\<close>: the five store commits (of which
  \<open>setVideoToState\<close> and \<open>setMicToState\<close> change the flags the handler reads)
  and \<open>setCallStatus('accepted')\<close>.
\<close>

subsection \<open>Sample inputs\<close>

definition sampleTrack :: MediaStreamTrack where
  "sampleTrack = \<lparr>kind = audio, readyState = live, enabled = True, isShare = False\<rparr>"

definition sampleHandler :: CallHandler where
  "sampleHandler =
     \<lparr>roomId = 5, connectionId = Some ''c'', webrtcConnnectionsIds = [''p1'', ''p2''],
      wsConnectionId = ''me'', localStream = Some 0, audioProcessor = True,
      callStatus = accepted, acceptedPeers = [''p1'', ''p2''], showMic = True,
      showVideo = False, shareScreen = False, streams = (\<lambda>s. [s]),
      tracks = (\<lambda>t. sampleTrack), effects = []\<rparr>"

text \<open>
  A handler that has received an offer and has not answered yet: two opponents are
  queued, no stream is held.
\<close>

definition sampleCallee :: CallHandler where
  "sampleCallee =
     sampleHandler\<lparr>callStatus := received_offer, localStream := None,
                    audioProcessor := False\<rparr>"

definition sampleEnv :: MediaEnv where
  "sampleEnv = \<lparr>getUserMedia = Inr 1, enumerateDevices = None,
                 captureScreen = Inl (Error ''unavailable'')\<rparr>"

definition sampleOffer :: OfferCall where
  "sampleOffer = \<lparr>opponentWsId = ''p3'', userId = 7, connId = ''new'', offerRoomId = 5\<rparr>"

definition sampleAccept :: OpponentMessage where
  "sampleAccept = \<lparr>opponentWsId = ''p3''\<rparr>"

section \<open>AbstractPeerConnection and FilePeerConnection\<close>

text \<open>
  \<open>ConnectionStatus\<close> is declared in a file that is not among the sources; the code
  uses \<open>'new'\<close> and \<open>'closed'\<close>, the other two values are those of the spec.
\<close>

datatype ConnectionStatus = status_new | status_negotiating | status_connected | status_closed

datatype signaling_state =
    signaling_stable
  | signaling_have_local_offer
  | signaling_have_remote_offer
  | signaling_have_local_pranswer
  | signaling_have_remote_pranswer
  | signaling_closed

datatype ice_state =
    ice_new
  | ice_checking
  | ice_connected
  | ice_completed
  | ice_failed
  | ice_disconnected
  | ice_closed

datatype channel_state = channel_connecting | channel_open | channel_closing | channel_closed

text \<open>
  The native objects.  \<open>iceConnectionState\<close> is \<open>None\<close> where the browser leaves
  the property undefined (the code tests it for truthiness).
\<close>

record RTCPeerConnection =
  signalingState :: signaling_state
  iceConnectionState :: "ice_state option"

record RTCDataChannel =
  channelReadyState :: channel_state

text \<open>
  What the browser does on \<open>RTCPeerConnection.close()\<close> and on
  \<open>RTCDataChannel.close()\<close>, as far as the code reads it back: the connection's
  signaling state and ICE connection state are \<open>closed\<close> from then on, and the
  channel's ready state is taken to be \<open>closed\<close> once \<open>close()\<close> has been
  called on it.
\<close>

definition native_close :: "RTCPeerConnection \<Rightarrow> RTCPeerConnection" where
  "native_close p = p\<lparr>signalingState := signaling_closed, iceConnectionState := Some ice_closed\<rparr>"

definition channel_close :: "RTCDataChannel \<Rightarrow> RTCDataChannel" where
  "channel_close c = c\<lparr>channelReadyState := channel_closed\<rparr>"

text \<open>
  The content of a signaling message is a session description, an ICE candidate or a
  message envelope; the code tells them apart by the truthiness of the properties
  \<open>sdp\<close>, \<open>candidate\<close> and \<open>message\<close>, in this order.
\<close>

record RtcContent =
  sdp :: "string option"
  candidate :: "string option"
  message :: "string option"

record OnSendRtcDataMessage =
  content :: RtcContent

datatype link_effect =
    PcClose
  | NewRTCPeerConnection
  | ChannelClose
  | SubNotify sub_message
  | SubUnsubscribe handler_key
  | SetRemoteDescription RtcContent
  | AddIceCandidate RtcContent
  | LoggerWarn string
  | LinkLoggerError string
  | DataChannelCloseHandler string

text \<open>
  One record holds the fields of \<open>AbstractPeerConnection\<close> that the modelled
  methods use, the flag \<open>connectedToRemote\<close> that the subclasses declare, and for
  a file link the status and the error text of its transfer record in the store.
  \<open>linkEffects\<close> is the trace of calls on the native objects, the router and the
  logger (\<open>logger.log\<close> lines are left out).
\<close>

record PeerConnection =
  offerCreator :: bool
  sendRtcDataQueue :: "OnSendRtcDataMessage list"
  peerOpponentWsId :: ws_id
  peerConnectionId :: conn_id
  pc :: "RTCPeerConnection option"
  connectionStatus :: ConnectionStatus
  sendChannel :: "RTCDataChannel option"
  connectedToRemote :: bool
  transferStatus :: FileTransferStatus
  transferError :: "string option"
  linkEffects :: "link_effect list"

definition linkEmit :: "link_effect \<Rightarrow> PeerConnection \<Rightarrow> PeerConnection" where
  "linkEmit e s = s\<lparr>linkEffects := linkEffects s @ [e]\<rparr>"

definition setConnectionStatus :: "ConnectionStatus \<Rightarrow> PeerConnection \<Rightarrow> PeerConnection" where
  "setConnectionStatus newStatus s = s\<lparr>connectionStatus := newStatus\<rparr>"

definition onDestroy :: "PeerConnection \<Rightarrow> PeerConnection" where
  "onDestroy s =
     (let s1 = linkEmit (SubNotify (removePeerConnection
                  (getTransferId (Some (peerConnectionId s))) (peerOpponentWsId s))) s
      in linkEmit (SubUnsubscribe
            (getPeerConnectionId (Some (peerConnectionId s1)) (peerOpponentWsId s1))) s1)"

definition closePeerConnection :: "PeerConnection \<Rightarrow> PeerConnection" where
  "closePeerConnection s =
     (let s1 = setConnectionStatus status_closed s
      in case pc s1 of
           None \<Rightarrow> s1
         | Some p \<Rightarrow>
             if signalingState p \<noteq> signaling_closed
             then (linkEmit PcClose s1)\<lparr>pc := Some (native_close p)\<rparr>
             else s1)"

subsection \<open>createPeerConnection\<close>

text \<open>
  A connection just returned by the browser's constructor is in the signaling state
  \<open>stable\<close> and in the ICE connection state \<open>new\<close>.
\<close>

definition new_RTCPeerConnection :: RTCPeerConnection where
  "new_RTCPeerConnection =
     \<lparr>signalingState = signaling_stable, iceConnectionState = Some ice_new\<rparr>"

text \<open>
  \<open>createPeerConnection\<close>: the field \<open>pc\<close>, \<open>null\<close> until then, receives a new
  native connection.  The first argument says whether the browser has
  \<open>window.RTCPeerConnection\<close>; without it the method throws and \<open>pc\<close> is left
  as it was.  (The two callbacks it installs are \<open>oniceconnectionstatechange\<close> and
  the forwarding of local candidates; installing them changes no modelled field.)
\<close>

definition createPeerConnection :: "bool \<Rightarrow> PeerConnection \<Rightarrow> PeerConnection result" where
  "createPeerConnection hasRTCPeerConnection s =
     (if \<not> hasRTCPeerConnection then
        Inl (Error ''Your browser doesn't support RTCPeerConnection'', s)
      else
        Inr ((linkEmit NewRTCPeerConnection s)\<lparr>pc := Some new_RTCPeerConnection\<rparr>))"

subsection \<open>onsendRtcData\<close>

definition onsendRtcData :: "OnSendRtcDataMessage \<Rightarrow> PeerConnection \<Rightarrow> PeerConnection result" where
  "onsendRtcData msg s =
     (if \<not> connectedToRemote s then
        Inr (s\<lparr>sendRtcDataQueue := sendRtcDataQueue s @ [msg]\<rparr>)
      else
        (case pc s of
           None \<Rightarrow> Inl (TypeError, s)
         | Some p \<Rightarrow>
             (let data = content msg
              in if iceConnectionState p \<noteq> None \<and> iceConnectionState p \<noteq> Some ice_closed then
                   (if truthy (sdp data) then Inr (linkEmit (SetRemoteDescription data) s)
                    else if truthy (candidate data) then Inr (linkEmit (AddIceCandidate data) s)
                    else if truthy (message data) then
                      Inr (linkEmit (LoggerWarn ''Got unknow message'') s)
                    else Inr s)
                 else
                   Inr (linkEmit (LinkLoggerError
                          ''Skipping ws message for closed connection'') s))))"

text \<open>
  Modelled from the spec: the step that marks a link as connected and flushes its
  queue (\<open>connectToRemote\<close> of the sender and receiver links) is not among the
  sources.  By the spec, signaling queued while the link is not connected is
  ``flushed in order once connected'', ``in submission order exactly once, never
  duplicated'': the link is marked connected, the queue is emptied, and each queued
  payload is handled by \<open>onsendRtcData\<close>, oldest first.
\<close>

definition flushQueue :: "PeerConnection \<Rightarrow> PeerConnection result" where
  "flushQueue s =
     run_all onsendRtcData (sendRtcDataQueue s)
       (s\<lparr>connectedToRemote := True, sendRtcDataQueue := []\<rparr>)"

text \<open>
  Modelled from the spec: the handler of the directive \<open>connectToRemote\<close> (``begin
  negotiation with the peer'') is not among the sources either.  A link has no native
  connection before this directive (\<open>pc\<close> is \<open>null\<close> until
  \<open>createPeerConnection\<close>, whose parameter is the \<open>ConnectToRemoteMessage\<close>), so
  the step first creates it with \<open>createPeerConnection\<close> and then marks the link
  connected and flushes the queue.  When \<open>createPeerConnection\<close> throws, the link
  does not become connected and the queue is not touched.
\<close>

definition connectLink :: "bool \<Rightarrow> PeerConnection \<Rightarrow> PeerConnection result" where
  "connectLink hasRTCPeerConnection s =
     and_then (createPeerConnection hasRTCPeerConnection s) flushQueue"

text \<open>
  What handling one payload on a connected link adds to the trace, given the native
  connection.
\<close>

definition rtcDataEffects :: "RTCPeerConnection \<Rightarrow> OnSendRtcDataMessage \<Rightarrow> link_effect list" where
  "rtcDataEffects p msg =
     (let data = content msg
      in if iceConnectionState p \<noteq> None \<and> iceConnectionState p \<noteq> Some ice_closed then
           (if truthy (sdp data) then [SetRemoteDescription data]
            else if truthy (candidate data) then [AddIceCandidate data]
            else if truthy (message data) then [LoggerWarn ''Got unknow message'']
            else [])
         else [LinkLoggerError ''Skipping ws message for closed connection''])"

subsection \<open>FilePeerConnection\<close>

text \<open>
  Modelled from the spec: \<open>ondatachannelclose\<close> is abstract in
  \<open>AbstractPeerConnection\<close>, and the file sender and receiver links that implement it
  are not among the sources.  By the spec the close is a transfer failure that
  ``notifies the transfer record (status \<rightarrow> error, or declined if the local/remote
  end explicitly declined)'', and a transfer that was in progress ``must end in
  error, not silently remain in progress''.  A record in progress becomes an error
  with the given text; a record in another status (declined, finished, undecided,
  error) keeps it.
\<close>

definition ondatachannelclose :: "string \<Rightarrow> PeerConnection \<Rightarrow> PeerConnection" where
  "ondatachannelclose text s =
     (let s1 = linkEmit (DataChannelCloseHandler text) s
      in if transferStatus s1 = IN_PROGRESS
         then s1\<lparr>transferStatus := ERROR, transferError := Some text\<rparr>
         else s1)"

definition closeEvents :: "string option \<Rightarrow> PeerConnection \<Rightarrow> PeerConnection" where
  "closeEvents text s =
     (let s1 = (case text of
                  None \<Rightarrow> s
                | Some t \<Rightarrow> if t \<noteq> [] then ondatachannelclose t s else s);
          s2 = linkEmit (LinkLoggerError ''Closing event'') s1;
          s3 = closePeerConnection s2
      in case sendChannel s3 of
           None \<Rightarrow> s3
         | Some c \<Rightarrow>
             if channelReadyState c \<noteq> channel_closed
             then (linkEmit ChannelClose s3)\<lparr>sendChannel := Some (channel_close c)\<rparr>
             else s3)"

definition oniceconnectionstatechange :: "PeerConnection \<Rightarrow> PeerConnection result" where
  "oniceconnectionstatechange s =
     (case pc s of
        None \<Rightarrow> Inl (TypeError, s)
      | Some p \<Rightarrow>
          if iceConnectionState p = Some ice_disconnected
          then Inr (closeEvents (Some ''Connection has been lost'') s)
          else Inr s)"

subsection \<open>Sample link\<close>

definition sampleLink :: PeerConnection where
  "sampleLink =
     \<lparr>offerCreator = False, sendRtcDataQueue = [], peerOpponentWsId = ''p1'',
      peerConnectionId = ''c'',
      pc = Some \<lparr>signalingState = signaling_stable, iceConnectionState = Some ice_disconnected\<rparr>,
      connectionStatus = status_new,
      sendChannel = Some \<lparr>channelReadyState = channel_open\<rparr>,
      connectedToRemote = False, transferStatus = IN_PROGRESS, transferError = None,
      linkEffects = []\<rparr>"

definition sampleSdp :: OnSendRtcDataMessage where
  "sampleSdp = \<lparr>content = \<lparr>sdp = Some ''v=0'', candidate = None, message = None\<rparr>\<rparr>"

definition sampleCandidate :: OnSendRtcDataMessage where
  "sampleCandidate =
     \<lparr>content = \<lparr>sdp = None, candidate = Some ''candidate:1'', message = None\<rparr>\<rparr>"

section \<open>Glare resolution\<close>

lemma peerVariant_lower:
  "self < opp \<Longrightarrow> peerVariant self opp = CallSenderPeerConnection"
  by (simp add: peerVariant_def)

lemma peerVariant_higher:
  "opp < self \<Longrightarrow> peerVariant self opp = CallReceiverPeerConnection"
  by (simp add: peerVariant_def)



section \<open>Call handler: helper facts\<close>

lemma foldl_notifyConnectToRemote:
  "foldl notifyConnectToRemote h xs =
     h\<lparr>effects := effects h @ map (\<lambda>e. Notify (connectToRemote
          (getPeerConnectionId (connectionId h) e) (localStream h))) xs\<rparr>"
  by (induction xs arbitrary: h) (simp_all add: notifyConnectToRemote_def emit_def)

lemma foldl_notifyStreamChanged:
  "foldl (notifyStreamChanged stream) h xs =
     h\<lparr>effects := effects h @ map (\<lambda>p. Notify (streamChanged
          (getPeerConnectionId (connectionId h) p) stream (localStream h))) xs\<rparr>"
  by (induction xs arbitrary: h) (simp_all add: notifyStreamChanged_def emit_def)

lemma foldl_stopTrack:
  "foldl stopTrack h ts =
     h\<lparr>tracks := foldl (\<lambda>f t. f(t := (f t)\<lparr>readyState := ended\<rparr>)) (tracks h) ts,
       effects := effects h @ map TrackStop ts\<rparr>"
  by (induction ts arbitrary: h) (simp_all add: stopTrack_def emit_def)

lemma captureInput_keeps:
  assumes "captureInput env h = (r, h')"
  shows "roomId h' = roomId h" and "connectionId h' = connectionId h"
    and "acceptedPeers h' = acceptedPeers h" and "localStream h' = localStream h"
    and "webrtcConnnectionsIds h' = webrtcConnnectionsIds h"
    and "callStatus h' = callStatus h"
  using assms
  by (auto simp add: captureInput_def captureShare_def emit_def Let_def
      split: sum.splits option.splits list.splits if_splits prod.splits)

lemma doAnswer_before_capture_keeps:
  "roomId (doAnswer_before_capture v h) = roomId h"
  "connectionId (doAnswer_before_capture v h) = connectionId h"
  "acceptedPeers (doAnswer_before_capture v h) = acceptedPeers h"
  by (simp_all add: doAnswer_before_capture_def emit_def Let_def)

section \<open>Replacing the local stream\<close>

text \<open>
  On the path of \<open>updateConnection\<close> that replaces the stream, the trace is: what
  the capture did, then one \<open>stop\<close> for every track of the old stream, then the
  attachment of the new stream, and only then one \<open>streamChanged\<close> per link, each
  with \<open>oldStream\<close> equal to \<open>newStream\<close> (the handler reads \<open>this.localStream\<close>
  after it has overwritten it).
\<close>

lemma updateConnection_trace:
  assumes "localStream h = Some ls" and "streamActive h ls"
    and "captureInput env h = (Inr stream, h1)"
  shows "effects (updateConnection env h) =
           effects h1 @ map TrackStop (streams h1 ls)
           @ [Store_setLocalStreamSrc (roomId h) stream]
           @ map (\<lambda>p. Notify (streamChanged (getPeerConnectionId (connectionId h) p)
                                 stream (Some stream))) (webrtcConnnectionsIds h)"
  using assms captureInput_keeps [OF assms(3)]
  by (simp add: updateConnection_def stopLocalStream_def destroyAudioProcessor_def
      destroyStreamData_def foldl_stopTrack attachLocalStream_def emit_def
      foldl_notifyStreamChanged)

text \<open>
  C2 does not hold of the code.  The handler holds stream 0 (one live track, track 0),
  two links \<open>p1\<close> and \<open>p2\<close> exist, and the capture returns stream 1.  The track
  of stream 0 is stopped first; the two \<open>streamChanged\<close> notifications come after
  it, and both carry stream 1 as \<open>newStream\<close> and as \<open>oldStream\<close>.
\<close>

theorem C2_updateConnection_on_device_change:
  "effects (updateConnection sampleEnv sampleHandler) =
     [TrackStop 0, Store_setLocalStreamSrc 5 1,
      Notify (streamChanged (PeerConnectionKey (Some ''c'') ''p1'') 1 (Some 1)),
      Notify (streamChanged (PeerConnectionKey (Some ''c'') ''p2'') 1 (Some 1))]"
  by (simp add: updateConnection_def sampleHandler_def sampleEnv_def sampleTrack_def
      streamActive_def captureInput_def captureShare_def stopLocalStream_def
      destroyAudioProcessor_def destroyStreamData_def stopTrack_def emit_def
      attachLocalStream_def notifyStreamChanged_def getPeerConnectionId_def)

section \<open>Answering a call\<close>

text \<open>
  C5, as the spec states it, fails: \<open>doAnswer\<close> does not clear the list of accepted
  peers.  On the sample callee, which holds \<open>p1\<close> and \<open>p2\<close>, \<open>doAnswer\<close>
  returns and the list is as it was.
\<close>

theorem C5_acceptedPeers_not_cleared:
  "map_sum id acceptedPeers (doAnswer False sampleEnv sampleCallee) = Inr [''p1'', ''p2'']"
  by (simp add: doAnswer_def doAnswer_before_capture_def sampleCallee_def sampleHandler_def sampleEnv_def
      captureInput_def captureShare_def emit_def attachLocalStream_def
      notifyConnectToRemote_def)

text \<open>
  C5, amended: when the capture in \<open>doAnswer\<close> succeeds, \<open>doAnswer\<close> returns;
  after the attachment of the captured stream and the acceptance sent to the relay,
  every opponent id queued in the list of accepted peers is sent one
  \<open>connectToRemote\<close> notification carrying the newly captured stream, in the order
  of the queue; the list of accepted peers is left as it was.
\<close>

theorem C5_doAnswer_connects_queue_in_order:
  "captureInput env (doAnswer_before_capture withVideo h) = (Inr stream, h7) \<Longrightarrow>
   \<exists>h'. doAnswer withVideo env h = Inr h'
      \<and> localStream h' = Some stream
      \<and> effects h' =
          effects h7
          @ [Store_setLocalStreamSrc (roomId h) stream, WsAcceptCall (connectionId h)]
          @ map (\<lambda>e. Notify (connectToRemote (getPeerConnectionId (connectionId h) e)
                                (Some stream))) (acceptedPeers h)
          @ [RouterReplace (roomId h)]
      \<and> acceptedPeers h' = acceptedPeers h"
proof -
  assume cap: "captureInput env (doAnswer_before_capture withVideo h) = (Inr stream, h7)"
  note keep = captureInput_keeps [OF cap] doAnswer_before_capture_keeps
  show ?thesis
    by (simp add: doAnswer_def cap attachLocalStream_def emit_def
        foldl_notifyConnectToRemote keep)
qed

theorem C5_doAnswer_connects_queue_in_order_witness:
  "\<exists>h'. doAnswer False sampleEnv sampleCallee = Inr h'
      \<and> localStream h' = Some 1
      \<and> [m. Notify m \<leftarrow> effects h'] =
          [connectToRemote (PeerConnectionKey (Some ''c'') ''p1'') (Some 1),
           connectToRemote (PeerConnectionKey (Some ''c'') ''p2'') (Some 1)]
      \<and> acceptedPeers h' = [''p1'', ''p2'']"
proof -
  have cap: "captureInput sampleEnv (doAnswer_before_capture False sampleCallee) =
      (Inr 1, doAnswer_before_capture False sampleCallee)"
    by (simp add: captureInput_def captureShare_def doAnswer_before_capture_def
        sampleCallee_def sampleHandler_def sampleEnv_def emit_def)
  from C5_doAnswer_connects_queue_in_order [OF cap]
  obtain h' where h': "doAnswer False sampleEnv sampleCallee = Inr h'"
    "localStream h' = Some 1"
    "effects h' = effects (doAnswer_before_capture False sampleCallee)
          @ [Store_setLocalStreamSrc (roomId sampleCallee) 1,
             WsAcceptCall (connectionId sampleCallee)]
          @ map (\<lambda>e. Notify (connectToRemote
                   (getPeerConnectionId (connectionId sampleCallee) e) (Some 1)))
              (acceptedPeers sampleCallee)
          @ [RouterReplace (roomId sampleCallee)]"
    "acceptedPeers h' = acceptedPeers sampleCallee"
    by blast
  have "[m. Notify m \<leftarrow> effects h'] =
          [connectToRemote (PeerConnectionKey (Some ''c'') ''p1'') (Some 1),
           connectToRemote (PeerConnectionKey (Some ''c'') ''p2'') (Some 1)]"
    by (simp add: h'(3) doAnswer_before_capture_def sampleCallee_def sampleHandler_def emit_def
        getPeerConnectionId_def)
  moreover have "acceptedPeers h' = [''p1'', ''p2'']"
    by (simp add: h'(4) sampleCallee_def sampleHandler_def)
  ultimately show ?thesis using h'(1,2) by blast
qed

section \<open>An opponent accepts\<close>

text \<open>
  C6: when \<open>onacceptCall\<close> receives an acceptance and the call status is not
  \<open>received_offer\<close>, it throws if there is no connection id, and otherwise its only
  effect is one \<open>connectToRemote\<close> notification for that opponent carrying the
  stream the handler already holds (nothing is captured: the state, the media heap
  included, is otherwise unchanged).  When the status is \<open>received_offer\<close>, the
  opponent id is appended to the list of accepted peers and nothing is notified.
\<close>

theorem C6_onacceptCall:
  "(callStatus h \<noteq> received_offer \<and> truthy (connectionId h) \<longrightarrow>
      onacceptCall msg h =
        Inr (h\<lparr>effects := effects h @ [Notify (connectToRemote
               (getPeerConnectionId (connectionId h) (opponentWsId msg))
               (localStream h))]\<rparr>))
   \<and> (callStatus h \<noteq> received_offer \<and> \<not> truthy (connectionId h) \<longrightarrow>
      onacceptCall msg h = Inl (Error ''Conn is is null'', h))
   \<and> (callStatus h = received_offer \<longrightarrow>
      onacceptCall msg h =
        Inr (h\<lparr>acceptedPeers := acceptedPeers h @ [opponentWsId msg]\<rparr>))"
  by (simp add: onacceptCall_def emit_def)

theorem C6_onacceptCall_witness:
  "onacceptCall sampleAccept sampleHandler =
     Inr (sampleHandler\<lparr>effects :=
       [Notify (connectToRemote (PeerConnectionKey (Some ''c'') ''p3'') (Some 0))]\<rparr>)
   \<and> onacceptCall sampleAccept (sampleHandler\<lparr>connectionId := None\<rparr>) =
     Inl (Error ''Conn is is null'', sampleHandler\<lparr>connectionId := None\<rparr>)
   \<and> onacceptCall sampleAccept (sampleHandler\<lparr>callStatus := received_offer\<rparr>) =
     Inr (sampleHandler\<lparr>callStatus := received_offer,
            acceptedPeers := [''p1'', ''p2'', ''p3'']\<rparr>)"
  using C6_onacceptCall [of sampleHandler sampleAccept]
    C6_onacceptCall [of "sampleHandler\<lparr>connectionId := None\<rparr>" sampleAccept]
    C6_onacceptCall [of "sampleHandler\<lparr>callStatus := received_offer\<rparr>" sampleAccept]
  by (simp add: sampleHandler_def sampleAccept_def truthy_def getPeerConnectionId_def)

section \<open>An incoming offer\<close>

text \<open>
  C7, as the spec states it, fails: an offer that arrives while a session is active is
  not rejected.  The sample handler holds the session \<open>c\<close>; after the offer for the
  session \<open>new\<close> the handler holds \<open>new\<close>, has subscribed to it, has replied to
  the relay and has created the peer connection.
\<close>

theorem C7_offer_accepted_over_active_session:
  "truthy (connectionId sampleHandler)
   \<and> connectionId (initAndDisplayOffer sampleOffer sampleHandler) = Some ''new''
   \<and> effects (initAndDisplayOffer sampleOffer sampleHandler) =
       [LoggerError ''Old connId still exists'',
        Subscribe (TransferKey (Some ''new'')),
        WsReplyCall ''new'',
        Store_setIncomingCall (Some (''new'', 5, 7)),
        NewPeerConnection CallSenderPeerConnection (Some ''new'') ''p3'' 7]"
  by (simp add: initAndDisplayOffer_def createCallPeerConnection_def peerVariant_def
      sampleHandler_def sampleOffer_def truthy_def emit_def getTransferId_def less_char_def)

text \<open>
  C7, amended: \<open>initAndDisplayOffer\<close> never throws.  If a session is already active
  it logs an error and then goes on as it does when no session is active: it sets the
  status \<open>received_offer\<close>, records the new connection id in place of the old one,
  subscribes to it, replies to the relay, queues the offering opponent among the
  accepted peers, surfaces the incoming-call model, and creates the peer connection
  for the offering opponent.
\<close>

theorem C7_initAndDisplayOffer:
  "initAndDisplayOffer msg h =
     h\<lparr>callStatus := received_offer,
       connectionId := Some (connId msg),
       acceptedPeers := acceptedPeers h @ [opponentWsId msg],
       webrtcConnnectionsIds := webrtcConnnectionsIds h @ [opponentWsId msg],
       effects := effects h
         @ (if truthy (connectionId h) then [LoggerError ''Old connId still exists''] else [])
         @ [Subscribe (getTransferId (Some (connId msg))),
            WsReplyCall (connId msg),
            Store_setIncomingCall (Some (connId msg, offerRoomId msg, userId msg)),
            NewPeerConnection (peerVariant (wsConnectionId h) (opponentWsId msg))
              (Some (connId msg)) (opponentWsId msg) (userId msg)]\<rparr>"
  by (simp add: initAndDisplayOffer_def createCallPeerConnection_def emit_def)

section \<open>Closing a peer link\<close>

lemma linkEmit_fields:
  "pc (linkEmit e s) = pc s"
  "sendChannel (linkEmit e s) = sendChannel s"
  "connectionStatus (linkEmit e s) = connectionStatus s"
  "transferStatus (linkEmit e s) = transferStatus s"
  "linkEffects (linkEmit e s) = linkEffects s @ [e]"
  by (simp_all add: linkEmit_def)

lemma closePeerConnection_None:
  "pc s = None \<Longrightarrow> closePeerConnection s = s\<lparr>connectionStatus := status_closed\<rparr>"
  by (simp add: closePeerConnection_def setConnectionStatus_def)

lemma closePeerConnection_closed:
  "pc s = Some p \<Longrightarrow> signalingState p = signaling_closed \<Longrightarrow>
   closePeerConnection s = s\<lparr>connectionStatus := status_closed\<rparr>"
  by (simp add: closePeerConnection_def setConnectionStatus_def)

lemma closePeerConnection_open:
  "pc s = Some p \<Longrightarrow> signalingState p \<noteq> signaling_closed \<Longrightarrow>
   closePeerConnection s =
     s\<lparr>connectionStatus := status_closed, pc := Some (native_close p),
       linkEffects := linkEffects s @ [PcClose]\<rparr>"
  by (simp add: closePeerConnection_def setConnectionStatus_def linkEmit_def)

lemma closePeerConnection_cases:
  "closePeerConnection s =
     (case pc s of
        None \<Rightarrow> s\<lparr>connectionStatus := status_closed\<rparr>
      | Some p \<Rightarrow>
          if signalingState p \<noteq> signaling_closed
          then s\<lparr>connectionStatus := status_closed, pc := Some (native_close p),
                 linkEffects := linkEffects s @ [PcClose]\<rparr>
          else s\<lparr>connectionStatus := status_closed\<rparr>)"
  by (cases "pc s")
     (simp_all add: closePeerConnection_None closePeerConnection_closed closePeerConnection_open)

lemma closePeerConnection_fields:
  "sendChannel (closePeerConnection s) = sendChannel s"
  "transferStatus (closePeerConnection s) = transferStatus s"
  "connectionStatus (closePeerConnection s) = status_closed"
  "pc (closePeerConnection s) =
     (case pc s of
        None \<Rightarrow> None
      | Some p \<Rightarrow> Some (if signalingState p \<noteq> signaling_closed then native_close p else p))"
  "linkEffects (closePeerConnection s) =
     linkEffects s
     @ (case pc s of
          None \<Rightarrow> []
        | Some p \<Rightarrow> if signalingState p \<noteq> signaling_closed then [PcClose] else [])"
  by (simp_all add: closePeerConnection_cases split: option.splits)

lemma closePeerConnection_twice:
  "closePeerConnection (closePeerConnection s) = closePeerConnection s"
proof (cases "pc s")
  case None
  then show ?thesis by (simp add: closePeerConnection_None)
next
  case (Some p)
  show ?thesis
  proof (cases "signalingState p = signaling_closed")
    case True
    with Some show ?thesis by (simp add: closePeerConnection_closed)
  next
    case False
    have "signalingState (native_close p) = signaling_closed"
      by (simp add: native_close_def)
    with Some False show ?thesis
      by (simp add: closePeerConnection_open closePeerConnection_closed)
  qed
qed

lemma onDestroy_effects:
  "linkEffects (onDestroy s) =
     linkEffects s
     @ [SubNotify (removePeerConnection (getTransferId (Some (peerConnectionId s)))
                     (peerOpponentWsId s)),
        SubUnsubscribe (getPeerConnectionId (Some (peerConnectionId s))
                          (peerOpponentWsId s))]"
  by (simp add: onDestroy_def linkEmit_def)

text \<open>
  C3, as the spec states it, fails.  On the sample link, whose data channel is open,
  two calls of \<open>closePeerConnection\<close> leave the data channel open; and two calls of
  \<open>onDestroy\<close> emit \<open>removePeerConnection\<close> twice.
\<close>

theorem C3_channel_left_open_and_double_emit:
  "sendChannel (closePeerConnection (closePeerConnection sampleLink)) =
     Some \<lparr>channelReadyState = channel_open\<rparr>
   \<and> linkEffects (onDestroy (onDestroy sampleLink)) =
       [SubNotify (removePeerConnection (TransferKey (Some ''c'')) ''p1''),
        SubUnsubscribe (PeerConnectionKey (Some ''c'') ''p1''),
        SubNotify (removePeerConnection (TransferKey (Some ''c'')) ''p1''),
        SubUnsubscribe (PeerConnectionKey (Some ''c'') ''p1'')]"
proof -
  have "sendChannel (closePeerConnection (closePeerConnection sampleLink)) =
      Some \<lparr>channelReadyState = channel_open\<rparr>"
    by (simp add: closePeerConnection_fields sampleLink_def)
  moreover have "linkEffects (onDestroy (onDestroy sampleLink)) =
       [SubNotify (removePeerConnection (TransferKey (Some ''c'')) ''p1''),
        SubUnsubscribe (PeerConnectionKey (Some ''c'') ''p1''),
        SubNotify (removePeerConnection (TransferKey (Some ''c'')) ''p1''),
        SubUnsubscribe (PeerConnectionKey (Some ''c'') ''p1'')]"
    by (simp add: onDestroy_def linkEmit_def sampleLink_def getTransferId_def
        getPeerConnectionId_def)
  ultimately show ?thesis by simp
qed

text \<open>
  C3, amended: \<open>closePeerConnection\<close> is idempotent.  Two calls produce the same end
  state as one: the status is \<open>closed\<close>, and \<open>close()\<close> is called on the native
  connection once if there is one whose signaling state is not \<open>closed\<close>, and not
  at all otherwise.  \<open>closePeerConnection\<close> leaves the data channel as it is and
  notifies nobody; \<open>removePeerConnection\<close> is emitted by \<open>onDestroy\<close>, once on
  every call.
\<close>

theorem C3_closePeerConnection_idempotent:
  "closePeerConnection (closePeerConnection s) = closePeerConnection s
   \<and> connectionStatus (closePeerConnection s) = status_closed
   \<and> linkEffects (closePeerConnection s) =
       linkEffects s
       @ (case pc s of
            None \<Rightarrow> []
          | Some p \<Rightarrow> if signalingState p \<noteq> signaling_closed then [PcClose] else [])
   \<and> sendChannel (closePeerConnection s) = sendChannel s
   \<and> linkEffects (onDestroy s) =
       linkEffects s
       @ [SubNotify (removePeerConnection (getTransferId (Some (peerConnectionId s)))
                       (peerOpponentWsId s)),
          SubUnsubscribe (getPeerConnectionId (Some (peerConnectionId s))
                            (peerOpponentWsId s))]"
  by (simp add: closePeerConnection_twice closePeerConnection_fields onDestroy_effects)

theorem C3_closePeerConnection_idempotent_witness:
  "closePeerConnection (closePeerConnection sampleLink) = closePeerConnection sampleLink
   \<and> connectionStatus (closePeerConnection sampleLink) = status_closed
   \<and> linkEffects (closePeerConnection sampleLink) = [PcClose]"
proof -
  have "linkEffects sampleLink
        @ (case pc sampleLink of
             None \<Rightarrow> []
           | Some p \<Rightarrow> if signalingState p \<noteq> signaling_closed then [PcClose] else [])
        = [PcClose]"
    by (simp add: sampleLink_def)
  with C3_closePeerConnection_idempotent [of sampleLink] show ?thesis by simp
qed

section \<open>Signaling received before the link is connected\<close>

lemma run_all_queue:
  "\<not> connectedToRemote s \<Longrightarrow>
   run_all onsendRtcData msgs s = Inr (s\<lparr>sendRtcDataQueue := sendRtcDataQueue s @ msgs\<rparr>)"
  by (induction msgs arbitrary: s) (simp_all add: onsendRtcData_def)

lemma onsendRtcData_connected:
  "connectedToRemote s \<Longrightarrow> pc s = Some p \<Longrightarrow>
   onsendRtcData m s = Inr (s\<lparr>linkEffects := linkEffects s @ rtcDataEffects p m\<rparr>)"
  by (simp add: onsendRtcData_def rtcDataEffects_def linkEmit_def Let_def)

lemma run_all_connected:
  "connectedToRemote s \<Longrightarrow> pc s = Some p \<Longrightarrow>
   run_all onsendRtcData msgs s =
     Inr (s\<lparr>linkEffects := linkEffects s @ concat (map (rtcDataEffects p) msgs)\<rparr>)"
  by (induction msgs arbitrary: s) (simp_all add: onsendRtcData_connected)

lemma flushQueue_eq:
  "pc s = Some p \<Longrightarrow>
   flushQueue s =
     Inr (s\<lparr>connectedToRemote := True, sendRtcDataQueue := [],
            linkEffects := linkEffects s
              @ concat (map (rtcDataEffects p) (sendRtcDataQueue s))\<rparr>)"
  by (simp add: flushQueue_def run_all_connected)

lemma connectLink_eq:
  "connectLink True s =
     Inr (s\<lparr>sendRtcDataQueue := [], pc := Some new_RTCPeerConnection,
            connectedToRemote := True,
            linkEffects := linkEffects s
              @ NewRTCPeerConnection
                # concat (map (rtcDataEffects new_RTCPeerConnection) (sendRtcDataQueue s))\<rparr>)"
  by (simp add: connectLink_def createPeerConnection_def and_then_def linkEmit_def
      flushQueue_eq [where p = new_RTCPeerConnection])

lemma connectLink_unsupported:
  "connectLink False s = Inl (Error ''Your browser doesn't support RTCPeerConnection'', s)"
  by (simp add: connectLink_def createPeerConnection_def and_then_def)

text \<open>
  C4: on a link that is not yet connected, with or without a native connection, a
  sequence of payloads handled by \<open>onsendRtcData\<close> is appended to the queue in the
  order of submission and nothing else changes (no payload is processed).  When the
  link is then connected, the queue is empty afterwards and the trace has grown by
  the creation of the native connection followed by the handling of each queued
  payload on it, in the order of submission, once.  A second connect step handles no
  payload again.  In a browser without \<open>RTCPeerConnection\<close> the connect step throws,
  the link stays unconnected and the queue keeps every payload, in order.
\<close>

theorem C4_queue_then_flush_in_order:
  "\<not> connectedToRemote s \<Longrightarrow>
     run_all onsendRtcData msgs s =
       Inr (s\<lparr>sendRtcDataQueue := sendRtcDataQueue s @ msgs\<rparr>)
   \<and> and_then (run_all onsendRtcData msgs s) (connectLink True) =
       Inr (s\<lparr>sendRtcDataQueue := [], pc := Some new_RTCPeerConnection,
              connectedToRemote := True,
              linkEffects := linkEffects s
                @ NewRTCPeerConnection
                  # concat (map (rtcDataEffects new_RTCPeerConnection)
                             (sendRtcDataQueue s @ msgs))\<rparr>)
   \<and> and_then (and_then (run_all onsendRtcData msgs s) (connectLink True)) (connectLink True) =
       Inr (s\<lparr>sendRtcDataQueue := [], pc := Some new_RTCPeerConnection,
              connectedToRemote := True,
              linkEffects := linkEffects s
                @ NewRTCPeerConnection
                  # concat (map (rtcDataEffects new_RTCPeerConnection)
                             (sendRtcDataQueue s @ msgs))
                @ [NewRTCPeerConnection]\<rparr>)
   \<and> and_then (run_all onsendRtcData msgs s) (connectLink False) =
       Inl (Error ''Your browser doesn't support RTCPeerConnection'',
            s\<lparr>sendRtcDataQueue := sendRtcDataQueue s @ msgs\<rparr>)"
  by (simp add: run_all_queue and_then_def connectLink_eq connectLink_unsupported)

theorem C4_queue_then_flush_in_order_witness:
  "pc (sampleLink\<lparr>pc := None\<rparr>) = None
   \<and> run_all onsendRtcData [sampleSdp, sampleCandidate] (sampleLink\<lparr>pc := None\<rparr>) =
     Inr (sampleLink\<lparr>sendRtcDataQueue := [sampleSdp, sampleCandidate], pc := None\<rparr>)
   \<and> and_then (run_all onsendRtcData [sampleSdp, sampleCandidate] (sampleLink\<lparr>pc := None\<rparr>))
        (connectLink True) =
     Inr (sampleLink\<lparr>pc := Some new_RTCPeerConnection, connectedToRemote := True,
            linkEffects := [NewRTCPeerConnection,
                            SetRemoteDescription (content sampleSdp),
                            AddIceCandidate (content sampleCandidate)]\<rparr>)"
proof -
  let ?s = "sampleLink\<lparr>pc := None\<rparr>"
  have nc: "\<not> connectedToRemote ?s" by (simp add: sampleLink_def)
  have e: "concat (map (rtcDataEffects new_RTCPeerConnection) [sampleSdp, sampleCandidate]) =
      [SetRemoteDescription (content sampleSdp), AddIceCandidate (content sampleCandidate)]"
    by (simp add: sampleSdp_def sampleCandidate_def rtcDataEffects_def
        new_RTCPeerConnection_def truthy_def)
  have q: "sendRtcDataQueue ?s @ [sampleSdp, sampleCandidate] = [sampleSdp, sampleCandidate]"
    by (simp add: sampleLink_def)
  have l: "linkEffects ?s @ NewRTCPeerConnection #
      [SetRemoteDescription (content sampleSdp), AddIceCandidate (content sampleCandidate)] =
      [NewRTCPeerConnection, SetRemoteDescription (content sampleSdp),
       AddIceCandidate (content sampleCandidate)]"
    by (simp add: sampleLink_def)
  have z1: "?s\<lparr>sendRtcDataQueue := [sampleSdp, sampleCandidate]\<rparr> =
      sampleLink\<lparr>sendRtcDataQueue := [sampleSdp, sampleCandidate], pc := None\<rparr>"
    by (simp add: sampleLink_def)
  have z2: "?s\<lparr>sendRtcDataQueue := [], pc := Some new_RTCPeerConnection,
        connectedToRemote := True,
        linkEffects := [NewRTCPeerConnection, SetRemoteDescription (content sampleSdp),
                        AddIceCandidate (content sampleCandidate)]\<rparr> =
      sampleLink\<lparr>pc := Some new_RTCPeerConnection, connectedToRemote := True,
        linkEffects := [NewRTCPeerConnection, SetRemoteDescription (content sampleSdp),
                        AddIceCandidate (content sampleCandidate)]\<rparr>"
    by (simp add: sampleLink_def)
  have p: "pc ?s = None" by simp
  from C4_queue_then_flush_in_order [OF nc, where msgs = "[sampleSdp, sampleCandidate]"]
  show ?thesis unfolding q e l z1 z2 using p by blast
qed

section \<open>A file link loses its connection\<close>

lemma ondatachannelclose_fields:
  "pc (ondatachannelclose t s) = pc s"
  "sendChannel (ondatachannelclose t s) = sendChannel s"
  "connectionStatus (ondatachannelclose t s) = connectionStatus s"
  "linkEffects (ondatachannelclose t s) = linkEffects s @ [DataChannelCloseHandler t]"
  "transferStatus (ondatachannelclose t s) =
     (if transferStatus s = IN_PROGRESS then ERROR else transferStatus s)"
  by (simp_all add: linkEmit_def ondatachannelclose_def Let_def)

lemma closeEvents_reason_None:
  "t \<noteq> [] \<Longrightarrow> sendChannel s = None \<Longrightarrow>
   closeEvents (Some t) s =
     closePeerConnection (linkEmit (LinkLoggerError ''Closing event'')
       (ondatachannelclose t s))"
  by (simp add: closeEvents_def Let_def closePeerConnection_fields linkEmit_fields
      ondatachannelclose_fields)

lemma closeEvents_reason_Some:
  "t \<noteq> [] \<Longrightarrow> sendChannel s = Some c \<Longrightarrow>
   closeEvents (Some t) s =
     (if channelReadyState c \<noteq> channel_closed
      then (linkEmit ChannelClose (closePeerConnection
              (linkEmit (LinkLoggerError ''Closing event'') (ondatachannelclose t s))))
             \<lparr>sendChannel := Some (channel_close c)\<rparr>
      else closePeerConnection (linkEmit (LinkLoggerError ''Closing event'')
             (ondatachannelclose t s)))"
  by (simp add: closeEvents_def Let_def closePeerConnection_fields linkEmit_fields
      ondatachannelclose_fields)

lemma closeEvents_reason_status:
  "t \<noteq> [] \<Longrightarrow> connectionStatus (closeEvents (Some t) s) = status_closed"
  by (cases "sendChannel s")
     (simp_all add: closeEvents_reason_None closeEvents_reason_Some linkEmit_fields
        closePeerConnection_fields)

lemma closeEvents_reason_transfer:
  "t \<noteq> [] \<Longrightarrow>
   transferStatus (closeEvents (Some t) s) =
     (if transferStatus s = IN_PROGRESS then ERROR else transferStatus s)"
  by (cases "sendChannel s")
     (simp_all add: closeEvents_reason_None closeEvents_reason_Some
        closePeerConnection_fields linkEmit_fields ondatachannelclose_fields)

lemma closeEvents_reason_pc:
  "t \<noteq> [] \<Longrightarrow>
   pc (closeEvents (Some t) s) =
     (case pc s of
        None \<Rightarrow> None
      | Some p \<Rightarrow> Some (if signalingState p \<noteq> signaling_closed then native_close p else p))"
  by (cases "sendChannel s")
     (simp_all add: closeEvents_reason_None closeEvents_reason_Some
        closePeerConnection_fields linkEmit_fields ondatachannelclose_fields)

lemma closeEvents_reason_channel:
  "t \<noteq> [] \<Longrightarrow>
   sendChannel (closeEvents (Some t) s) =
     (case sendChannel s of
        None \<Rightarrow> None
      | Some c \<Rightarrow> Some (if channelReadyState c \<noteq> channel_closed then channel_close c else c))"
  by (cases "sendChannel s")
     (simp_all add: closeEvents_reason_None closeEvents_reason_Some
        closePeerConnection_fields linkEmit_fields ondatachannelclose_fields)

lemma closeEvents_reason_effects:
  "t \<noteq> [] \<Longrightarrow>
   linkEffects (closeEvents (Some t) s) =
     linkEffects s
     @ [DataChannelCloseHandler t, LinkLoggerError ''Closing event'']
     @ (case pc s of
          None \<Rightarrow> []
        | Some p \<Rightarrow> if signalingState p \<noteq> signaling_closed then [PcClose] else [])
     @ (case sendChannel s of
          None \<Rightarrow> []
        | Some c \<Rightarrow> if channelReadyState c \<noteq> channel_closed then [ChannelClose] else [])"
  by (cases "sendChannel s")
     (simp_all add: closeEvents_reason_None closeEvents_reason_Some
        closePeerConnection_fields linkEmit_fields ondatachannelclose_fields)

text \<open>
  C8: when the ICE connection state of a file link is \<open>disconnected\<close>,
  \<open>oniceconnectionstatechange\<close> returns the state that \<open>closeEvents\<close> yields for
  the reason \<open>Connection has been lost\<close>: the data-channel-close handler has been
  called with that reason (a transfer record in progress is now in error, any other
  keeps its status), the status of the link is \<open>closed\<close>, \<open>close()\<close> has been
  called on the native connection if its signaling state was not \<open>closed\<close>, and
  \<open>close()\<close> has been called on the send channel if there is one whose ready state
  was not \<open>closed\<close>, in this order.
\<close>

theorem C8_ice_disconnect_closes_file_link:
  "pc s = Some p \<Longrightarrow> iceConnectionState p = Some ice_disconnected \<Longrightarrow>
   \<exists>s'. oniceconnectionstatechange s = Inr s'
      \<and> s' = closeEvents (Some ''Connection has been lost'') s
      \<and> connectionStatus s' = status_closed
      \<and> transferStatus s' = (if transferStatus s = IN_PROGRESS then ERROR else transferStatus s)
      \<and> linkEffects s' =
          linkEffects s
          @ [DataChannelCloseHandler ''Connection has been lost'',
             LinkLoggerError ''Closing event'']
          @ (if signalingState p \<noteq> signaling_closed then [PcClose] else [])
          @ (case sendChannel s of
               None \<Rightarrow> []
             | Some c \<Rightarrow> if channelReadyState c \<noteq> channel_closed then [ChannelClose] else [])
      \<and> pc s' = Some (if signalingState p \<noteq> signaling_closed then native_close p else p)
      \<and> sendChannel s' =
          (case sendChannel s of
             None \<Rightarrow> None
           | Some c \<Rightarrow> Some (if channelReadyState c \<noteq> channel_closed
                             then channel_close c else c))"
proof -
  assume p: "pc s = Some p" and ice: "iceConnectionState p = Some ice_disconnected"
  have ne: "''Connection has been lost'' \<noteq> []" by simp
  have "oniceconnectionstatechange s = Inr (closeEvents (Some ''Connection has been lost'') s)"
    by (simp add: oniceconnectionstatechange_def p ice)
  then show ?thesis
    using closeEvents_reason_status [OF ne, of s] closeEvents_reason_transfer [OF ne, of s]
      closeEvents_reason_effects [OF ne, of s] closeEvents_reason_pc [OF ne, of s]
      closeEvents_reason_channel [OF ne, of s]
    by (simp add: p)
qed

theorem C8_ice_disconnect_closes_file_link_witness:
  "\<exists>s'. oniceconnectionstatechange sampleLink = Inr s'
      \<and> connectionStatus s' = status_closed
      \<and> transferStatus s' = ERROR
      \<and> linkEffects s' =
          [DataChannelCloseHandler ''Connection has been lost'',
           LinkLoggerError ''Closing event'', PcClose, ChannelClose]
      \<and> pc s' = Some \<lparr>signalingState = signaling_closed, iceConnectionState = Some ice_closed\<rparr>
      \<and> sendChannel s' = Some \<lparr>channelReadyState = channel_closed\<rparr>"
proof -
  have p: "pc sampleLink =
      Some \<lparr>signalingState = signaling_stable, iceConnectionState = Some ice_disconnected\<rparr>"
    by (simp add: sampleLink_def)
  have ice: "iceConnectionState
      \<lparr>signalingState = signaling_stable, iceConnectionState = Some ice_disconnected\<rparr> =
      Some ice_disconnected"
    by simp
  from C8_ice_disconnect_closes_file_link [OF p ice]
  show ?thesis
    by (simp add: sampleLink_def native_close_def channel_close_def)
qed

section \<open>The bandwidth line\<close>

lemma js_join_Cons_Cons: "js_join sep ((x # a) # ls) = x # js_join sep (a # ls)"
  by (cases ls) simp_all

lemma js_split_not_Nil: "js_split c s \<noteq> []"
  by (induction s) (simp_all split: list.splits)

lemma js_join_js_split: "js_join [c] (js_split c s) = s"
proof (induction s)
  case Nil
  show ?case by simp
next
  case (Cons x xs)
  obtain a ls where a: "js_split c xs = a # ls"
    using js_split_not_Nil [of c xs] by (cases "js_split c xs") auto
  show ?case
  proof (cases "x = c")
    case True
    with Cons a show ?thesis by simp
  next
    case False
    with Cons a show ?thesis by (simp add: js_join_Cons_Cons)
  qed
qed

lemma find_m_line_none:
  "\<forall>l \<in> set ls. \<not> startsWith l ''m='' \<Longrightarrow>
   find_m_line (before @ ls) (length before) = None"
proof (induction ls arbitrary: before)
  case Nil
  show ?case by (subst find_m_line.simps) simp
next
  case (Cons l ls)
  have "find_m_line ((before @ [l]) @ ls) (length (before @ [l])) = None"
    using Cons.prems by (intro Cons.IH) simp
  then show ?case
    using Cons.prems by (subst find_m_line.simps) simp
qed

lemma find_m_line_some:
  "\<forall>l \<in> set pre. \<not> startsWith l ''m='' \<Longrightarrow> startsWith m ''m='' \<Longrightarrow>
   find_m_line (before @ pre @ m # rest) (length before) =
     Some (length before + length pre + 1)"
proof (induction pre arbitrary: before)
  case Nil
  then show ?case by (subst find_m_line.simps) simp
next
  case (Cons l pre)
  have "find_m_line ((before @ [l]) @ pre @ m # rest) (length (before @ [l])) =
      Some (length (before @ [l]) + length pre + 1)"
    using Cons.prems by (intro Cons.IH) simp_all
  then show ?case
    using Cons.prems by (subst find_m_line.simps) simp
qed

lemma skip_i_and_c_stops:
  "\<forall>x \<in> set ic. i_or_c x \<Longrightarrow> \<not> i_or_c l \<Longrightarrow>
   skip_i_and_c (before @ ic @ l # post) (length before) =
     Inr (length before + length ic)"
proof (induction ic arbitrary: before)
  case Nil
  then show ?case by (subst skip_i_and_c.simps) (simp add: i_or_c_def)
next
  case (Cons x ic)
  have "skip_i_and_c ((before @ [x]) @ ic @ l # post) (length (before @ [x])) =
      Inr (length (before @ [x]) + length ic)"
    using Cons.prems by (intro Cons.IH) simp_all
  then show ?case
    using Cons.prems by (subst skip_i_and_c.simps) (simp add: i_or_c_def)
qed

lemma skip_i_and_c_runs_off:
  "\<forall>x \<in> set ic. i_or_c x \<Longrightarrow>
   skip_i_and_c (before @ ic) (length before) = Inl TypeError"
proof (induction ic arbitrary: before)
  case Nil
  show ?case by (subst skip_i_and_c.simps) simp
next
  case (Cons x ic)
  have "skip_i_and_c ((before @ [x]) @ ic) (length (before @ [x])) = Inl TypeError"
    using Cons.prems by (intro Cons.IH) simp
  then show ?case
    using Cons.prems by (subst skip_i_and_c.simps) (simp add: i_or_c_def)
qed

lemma setMediaBitrate_no_m_line:
  "\<forall>l \<in> set (js_split newline s). \<not> startsWith l ''m='' \<Longrightarrow>
   setMediaBitrate s b = Inr s"
  using find_m_line_none [of "js_split newline s" "[]"]
  by (simp add: setMediaBitrate_def)

lemma setMediaBitrate_m_line:
  assumes lines: "js_split newline s = pre @ [m] @ ic @ [l] @ post"
    and pre: "\<forall>x \<in> set pre. \<not> startsWith x ''m=''"
    and m: "startsWith m ''m=''"
    and ic: "\<forall>x \<in> set ic. i_or_c x"
    and l: "\<not> i_or_c l"
  shows "setMediaBitrate s b =
     Inr (js_join [newline]
            (pre @ [m] @ ic
             @ (if startsWith l ''b'' then [''b=AS:'' @ string_of_nat b]
                else [''b=AS:'' @ string_of_nat b, l])
             @ post))"
proof -
  let ?lines = "pre @ [m] @ ic @ [l] @ post"
  let ?k = "length pre + 1 + length ic"
  have f: "find_m_line ?lines 0 = Some (length pre + 1)"
    using find_m_line_some [OF pre m, of "[]" "ic @ [l] @ post"] by simp
  have sk: "skip_i_and_c ?lines (length pre + 1) = Inr ?k"
    using skip_i_and_c_stops [OF ic l, of "pre @ [m]" post] by simp
  have nth: "?lines ! ?k = l"
    by (simp add: nth_append)
  have upd: "?lines[?k := x] = pre @ [m] @ ic @ [x] @ post" for x
    by (simp add: list_update_append)
  have tk: "take ?k ?lines = pre @ [m] @ ic" and dr: "drop ?k ?lines = [l] @ post"
    by simp_all
  have "setMediaBitrate s b =
      (if startsWith (?lines ! ?k) ''b''
       then Inr (js_join [newline] (?lines[?k := ''b=AS:'' @ string_of_nat b]))
       else Inr (js_join [newline]
              (take ?k ?lines @ [''b=AS:'' @ string_of_nat b] @ drop ?k ?lines)))"
    by (simp only: setMediaBitrate_def Let_def lines f sk option.case sum.case)
  also have "\<dots> =
      (if startsWith l ''b''
       then Inr (js_join [newline] (pre @ [m] @ ic @ [''b=AS:'' @ string_of_nat b] @ post))
       else Inr (js_join [newline]
              ((pre @ [m] @ ic) @ [''b=AS:'' @ string_of_nat b] @ [l] @ post)))"
    by (simp only: nth upd tk dr)
  also have "\<dots> =
      Inr (js_join [newline]
            (pre @ [m] @ ic
             @ (if startsWith l ''b'' then [''b=AS:'' @ string_of_nat b]
                else [''b=AS:'' @ string_of_nat b, l])
             @ post))"
    by simp
  finally show ?thesis .
qed

lemma setMediaBitrate_runs_off:
  assumes lines: "js_split newline s = pre @ [m] @ ic"
    and pre: "\<forall>x \<in> set pre. \<not> startsWith x ''m=''"
    and m: "startsWith m ''m=''"
    and ic: "\<forall>x \<in> set ic. i_or_c x"
  shows "setMediaBitrate s b = Inl TypeError"
proof -
  have f: "find_m_line (pre @ [m] @ ic) 0 = Some (length pre + 1)"
    using find_m_line_some [OF pre m, of "[]" ic] by simp
  have sk: "skip_i_and_c (pre @ [m] @ ic) (length pre + 1) = Inl TypeError"
    using skip_i_and_c_runs_off [OF ic, of "pre @ [m]"] by simp
  show ?thesis
    by (simp only: setMediaBitrate_def Let_def lines f sk option.case sum.case)
qed

lemma js_split_terminated: "js_split c (t @ [c]) = js_split c t @ [[]]"
proof (induction t)
  case Nil
  show ?case by simp
next
  case (Cons x t)
  obtain a ls where a: "js_split c t = a # ls"
    using js_split_not_Nil [of c t] by (cases "js_split c t") auto
  with Cons show ?case by simp
qed

lemma lines_decompose:
  assumes m: "\<exists>x \<in> set lines. startsWith x ''m=''"
    and last: "\<not> startsWith (last lines) ''m=''" "\<not> i_or_c (last lines)"
  shows "\<exists>pre m ic l post.
           lines = pre @ [m] @ ic @ [l] @ post
         \<and> (\<forall>x \<in> set pre. \<not> startsWith x ''m='')
         \<and> startsWith m ''m=''
         \<and> (\<forall>x \<in> set ic. i_or_c x)
         \<and> \<not> i_or_c l"
proof -
  from split_list_first_prop [OF m]
  obtain pre m rest where l1: "lines = pre @ m # rest" and pm: "startsWith m ''m=''"
    and ppre: "\<forall>x \<in> set pre. \<not> startsWith x ''m=''"
    by blast
  have rest: "rest \<noteq> []"
  proof
    assume "rest = []"
    with l1 have "last lines = m" by simp
    with pm last(1) show False by simp
  qed
  with l1 have "last rest = last lines" by simp
  with last(2) rest have "\<exists>x \<in> set rest. \<not> i_or_c x"
    using last_in_set by metis
  from split_list_first_prop [OF this]
  obtain ic l post where l2: "rest = ic @ l # post" and pl: "\<not> i_or_c l"
    and pic: "\<forall>x \<in> set ic. \<not> \<not> i_or_c x"
    by blast
  from l1 l2 have "lines = pre @ [m] @ ic @ [l] @ post" by simp
  with ppre pm pic pl show ?thesis by blast
qed

lemma terminated_decompose:
  assumes "\<exists>x \<in> set (js_split newline (t @ [newline])). startsWith x ''m=''"
  shows "\<exists>pre m ic l post.
           js_split newline (t @ [newline]) = pre @ [m] @ ic @ [l] @ post
         \<and> (\<forall>x \<in> set pre. \<not> startsWith x ''m='')
         \<and> startsWith m ''m=''
         \<and> (\<forall>x \<in> set ic. i_or_c x)
         \<and> \<not> i_or_c l"
proof -
  have "last (js_split newline (t @ [newline])) = []"
    by (simp add: js_split_terminated)
  then have "\<not> startsWith (last (js_split newline (t @ [newline]))) ''m=''"
    and "\<not> i_or_c (last (js_split newline (t @ [newline])))"
    by (simp_all add: startsWith_def i_or_c_def)
  with assms show ?thesis by (rule lines_decompose)
qed

text \<open>
  C9, as the spec states it, fails: it does not hold for every string.  For the text
  \<open>m=audio\<close>, which has a line starting with \<open>m=\<close> and nothing after it,
  \<open>setMediaBitrate\<close> returns no text: it throws a \<open>TypeError\<close>.
\<close>

theorem C9_m_line_last_throws:
  "setMediaBitrate ''m=audio'' 1638400 = Inl TypeError"
  by (simp add: setMediaBitrate_def startsWith_def newline_def find_m_line.simps
      skip_i_and_c.simps)

text \<open>
  C9, amended: if no line of the text starts with \<open>m=\<close>, the text is returned
  unchanged.  If the lines of the text are \<open>pre\<close>, then the first line \<open>m\<close>
  that starts with \<open>m=\<close>, then lines \<open>ic\<close> that all start with \<open>i=\<close> or
  \<open>c=\<close>, then a line \<open>l\<close> that starts with neither, then \<open>post\<close>, the
  result is the same lines, in the same order, with the line \<open>b=AS:<bitrate\<close>> in
  the place of \<open>l\<close> if \<open>l\<close> starts with \<open>b\<close>, and inserted before \<open>l\<close>
  otherwise.  Every text that ends with a line feed and has a line starting with
  \<open>m=\<close> is made of lines in this way.
\<close>

theorem C9_setMediaBitrate:
  "((\<forall>x \<in> set (js_split newline s). \<not> startsWith x ''m='') \<longrightarrow>
      setMediaBitrate s b = Inr s)
   \<and> (js_split newline s = pre @ [m] @ ic @ [l] @ post
      \<and> (\<forall>x \<in> set pre. \<not> startsWith x ''m='')
      \<and> startsWith m ''m=''
      \<and> (\<forall>x \<in> set ic. startsWith x ''i='' \<or> startsWith x ''c='')
      \<and> \<not> startsWith l ''i='' \<and> \<not> startsWith l ''c='' \<longrightarrow>
      setMediaBitrate s b =
        Inr (js_join [newline]
               (pre @ [m] @ ic
                @ (if startsWith l ''b'' then [''b=AS:'' @ string_of_nat b]
                   else [''b=AS:'' @ string_of_nat b, l])
                @ post)))
   \<and> ((\<exists>x \<in> set (js_split newline (t @ [newline])). startsWith x ''m='') \<longrightarrow>
      (\<exists>pre' m' ic' l' post'.
          js_split newline (t @ [newline]) = pre' @ [m'] @ ic' @ [l'] @ post'
        \<and> (\<forall>x \<in> set pre'. \<not> startsWith x ''m='')
        \<and> startsWith m' ''m=''
        \<and> (\<forall>x \<in> set ic'. startsWith x ''i='' \<or> startsWith x ''c='')
        \<and> \<not> startsWith l' ''i='' \<and> \<not> startsWith l' ''c=''))"
proof -
  have a: "(\<forall>x \<in> set (js_split newline s). \<not> startsWith x ''m='') \<longrightarrow>
      setMediaBitrate s b = Inr s"
    using setMediaBitrate_no_m_line [of s b] by blast
  have b: "js_split newline s = pre @ [m] @ ic @ [l] @ post
      \<and> (\<forall>x \<in> set pre. \<not> startsWith x ''m='')
      \<and> startsWith m ''m=''
      \<and> (\<forall>x \<in> set ic. startsWith x ''i='' \<or> startsWith x ''c='')
      \<and> \<not> startsWith l ''i='' \<and> \<not> startsWith l ''c='' \<longrightarrow>
      setMediaBitrate s b =
        Inr (js_join [newline]
               (pre @ [m] @ ic
                @ (if startsWith l ''b'' then [''b=AS:'' @ string_of_nat b]
                   else [''b=AS:'' @ string_of_nat b, l])
                @ post))"
    using setMediaBitrate_m_line [of s pre m ic l post b] by (simp add: i_or_c_def)
  have c: "(\<exists>x \<in> set (js_split newline (t @ [newline])). startsWith x ''m='') \<longrightarrow>
      (\<exists>pre' m' ic' l' post'.
          js_split newline (t @ [newline]) = pre' @ [m'] @ ic' @ [l'] @ post'
        \<and> (\<forall>x \<in> set pre'. \<not> startsWith x ''m='')
        \<and> startsWith m' ''m=''
        \<and> (\<forall>x \<in> set ic'. startsWith x ''i='' \<or> startsWith x ''c='')
        \<and> \<not> startsWith l' ''i='' \<and> \<not> startsWith l' ''c='')"
    using terminated_decompose [of t] unfolding i_or_c_def by blast
  from a b c show ?thesis by blast
qed

theorem C9_setMediaBitrate_witness:
  "setMediaBitrate ''v=0'' 1638400 = Inr ''v=0''
   \<and> setMediaBitrate sampleSdpText 1638400 =
       Inr ''v=0\<newline>m=audio 9 RTP/AVP 0\<newline>c=IN IP4 0.0.0.0\<newline>b=AS:1638400\<newline>a=sendrecv\<newline>''
   \<and> (\<exists>pre' m' ic' l' post'.
          js_split newline (''m=audio'' @ [newline]) = pre' @ [m'] @ ic' @ [l'] @ post'
        \<and> startsWith m' ''m=''
        \<and> \<not> startsWith l' ''i='' \<and> \<not> startsWith l' ''c='')"
proof -
  have n: "\<forall>x \<in> set (js_split newline ''v=0''). \<not> startsWith x ''m=''"
    by (simp add: newline_def startsWith_def)
  have sp: "js_split newline sampleSdpText =
      [''v=0''] @ [''m=audio 9 RTP/AVP 0''] @ [''c=IN IP4 0.0.0.0''] @ [''a=sendrecv'']
      @ [[]]"
    by (simp add: sampleSdpText_def newline_def)
  have h: "(\<forall>x \<in> set [''v=0'']. \<not> startsWith x ''m='')
      \<and> startsWith ''m=audio 9 RTP/AVP 0'' ''m=''
      \<and> (\<forall>x \<in> set [''c=IN IP4 0.0.0.0'']. startsWith x ''i='' \<or> startsWith x ''c='')
      \<and> \<not> startsWith ''a=sendrecv'' ''i='' \<and> \<not> startsWith ''a=sendrecv'' ''c=''
      \<and> \<not> startsWith ''a=sendrecv'' ''b''"
    by (simp add: startsWith_def)
  have d: "string_of_nat 1638400 = ''1638400''"
    by (simp add: string_of_nat.simps digit_def)
  have e: "\<exists>x \<in> set (js_split newline (''m=audio'' @ [newline])). startsWith x ''m=''"
    by (simp add: newline_def startsWith_def)
  from C9_setMediaBitrate [where s = "''v=0''" and b = 1638400] n
  have a: "setMediaBitrate ''v=0'' 1638400 = Inr ''v=0''" by blast
  from C9_setMediaBitrate [where s = sampleSdpText and b = 1638400 and pre = "[''v=0'']"
      and m = "''m=audio 9 RTP/AVP 0''" and ic = "[''c=IN IP4 0.0.0.0'']"
      and l = "''a=sendrecv''" and post = "[[]]"] sp h
  have "setMediaBitrate sampleSdpText 1638400 =
      Inr (js_join [newline]
             ([''v=0''] @ [''m=audio 9 RTP/AVP 0''] @ [''c=IN IP4 0.0.0.0'']
              @ [''b=AS:'' @ string_of_nat 1638400, ''a=sendrecv''] @ [[]]))"
    by simp
  then have b: "setMediaBitrate sampleSdpText 1638400 =
       Inr ''v=0\<newline>m=audio 9 RTP/AVP 0\<newline>c=IN IP4 0.0.0.0\<newline>b=AS:1638400\<newline>a=sendrecv\<newline>''"
    by (simp add: d newline_def)
  from C9_setMediaBitrate [where t = "''m=audio''"] e
  have c: "\<exists>pre' m' ic' l' post'.
          js_split newline (''m=audio'' @ [newline]) = pre' @ [m'] @ ic' @ [l'] @ post'
        \<and> startsWith m' ''m=''
        \<and> \<not> startsWith l' ''i='' \<and> \<not> startsWith l' ''c=''"
    by blast
  from a b c show ?thesis by blast
qed

section \<open>The call flags in the store\<close>

lemma state_of_simps [simp]:
  "state_of (Inr s) = s"
  "state_of (Inl (e, s)) = s"
  "state_of (Validate k r) = state_of r"
  by (auto simp add: state_of_def Validate_def split: sum.splits)

lemma keepsFlags_refl [simp]: "keepsFlags st st"
  by (simp add: keepsFlags_def)

lemma keepsFlags_trans:
  "keepsFlags st st1 \<Longrightarrow> keepsFlags st1 st2 \<Longrightarrow> keepsFlags st st2"
  unfolding keepsFlags_def by fastforce

lemma keepsFlags_other_fields [simp]:
  "keepsFlags (st\<lparr>mediaLinkId := n\<rparr>) st' = keepsFlags st st'"
  "keepsFlags (st\<lparr>mediaObjects := mo\<rparr>) st' = keepsFlags st st'"
  "keepsFlags st (st'\<lparr>mediaLinkId := n\<rparr>) = keepsFlags st st'"
  "keepsFlags st (st'\<lparr>mediaObjects := mo\<rparr>) = keepsFlags st st'"
  by (simp_all add: keepsFlags_def)

lemma keepsFlags_onRoom:
  assumes "\<And>r r'. f r = Inr r' \<Longrightarrow>
             ci_showVideo (callInfo r') = ci_showVideo (callInfo r)
           \<and> ci_shareScreen (callInfo r') = ci_shareScreen (callInfo r)"
  shows "keepsFlags st (state_of (onRoom rid f st))"
proof (cases "roomsDict st rid")
  case None
  then show ?thesis by (simp add: onRoom_def)
next
  case (Some r)
  show ?thesis
  proof (cases "f r")
    case (Inl e)
    with Some show ?thesis by (simp add: onRoom_def)
  next
    case (Inr r')
    from assms [OF Inr] Some Inr show ?thesis
      by (simp add: onRoom_def keepsFlags_def)
  qed
qed

lemma keepsFlags_onCallInfo:
  assumes "\<And>c c'. g c = Inr c' \<Longrightarrow>
             ci_showVideo c' = ci_showVideo c \<and> ci_shareScreen c' = ci_shareScreen c"
  shows "keepsFlags st (state_of (onCallInfo rid g st))"
  unfolding onCallInfo_def
  by (rule keepsFlags_onRoom) (auto split: sum.splits dest: assms)

lemma keepsFlags_onMessage: "keepsFlags st (state_of (onMessage rid mid f st))"
  unfolding onMessage_def
  by (rule keepsFlags_onRoom) (auto split: sum.splits option.splits)

lemma keepsFlags_onCall: "keepsFlags st (state_of (onCall rid opp f st))"
  unfolding onCall_def
  by (rule keepsFlags_onCallInfo) (auto split: option.splits)

lemma keepsFlags_onSendingTransfer:
  "keepsFlags st (state_of (onSendingTransfer rid cid tid f st))"
  unfolding onSendingTransfer_def
  by (rule keepsFlags_onRoom) (auto split: option.splits)

lemma keepsFlags_onReceivingFile:
  "keepsFlags st (state_of (onReceivingFile rid cid f st))"
  unfolding onReceivingFile_def
  by (rule keepsFlags_onRoom) (auto split: option.splits)

lemma keepsFlags_run_all:
  assumes "\<And>x s. keepsFlags s (state_of (f x s))"
  shows "keepsFlags st (state_of (run_all f xs st))"
proof (induction xs arbitrary: st)
  case Nil
  show ?case by simp
next
  case (Cons x xs)
  show ?case
  proof (cases "f x st")
    case (Inl e)
    with assms [of st x] show ?thesis by (cases e) simp
  next
    case (Inr s')
    with assms [of st x] have "keepsFlags st s'" by simp
    with Cons.IH [of s'] Inr show ?thesis
      by (auto intro: keepsFlags_trans)
  qed
qed

lemma keeps_setOpponentAnchor:
  "keepsFlags st (state_of (setOpponentAnchor r opp x st))"
proof -
  let ?st1 = "st\<lparr>mediaLinkId := Suc (mediaLinkId st)\<rparr>"
  let ?res = "onCall r opp (\<lambda>c. c\<lparr>call_mediaStreamLink := Some (mediaLinkId st)\<rparr>) ?st1"
  have k: "keepsFlags st (state_of ?res)"
    using keepsFlags_onCall [of ?st1 r opp _] by simp
  show ?thesis
  proof (cases ?res)
    case (Inl e)
    with k show ?thesis by (simp add: setOpponentAnchor_def Let_def)
  next
    case (Inr st2)
    with k show ?thesis by (simp add: setOpponentAnchor_def Let_def)
  qed
qed

lemma keeps_setLocalStreamSrc:
  "keepsFlags st (state_of (setLocalStreamSrc r m st))"
  using keepsFlags_onCallInfo [of "\<lambda>ci. Inr (ci\<lparr>ci_mediaStreamLink := Some (mediaLinkId st)\<rparr>)"
      "st\<lparr>mediaLinkId := Suc (mediaLinkId st),
          mediaObjects := (mediaObjects st)(mediaLinkId st \<mapsto> m)\<rparr>" r]
  by (auto simp add: setLocalStreamSrc_def Let_def)

lemma keeps_simple:
  "keepsFlags st (state_of (setMessageProgress r m u st))"
  "keepsFlags st (state_of (setUploadProgress r m up st))"
  "keepsFlags st (state_of (setCallOpponent r opp c st))"
  "keepsFlags st (state_of (setOpponentVoice r opp v st))"
  "keepsFlags st (state_of (addSendingFile sf st))"
  "keepsFlags st (state_of (toggleContainer r st))"
  "keepsFlags st (state_of (setContainerToState r b st))"
  "keepsFlags st (state_of (setCurrentMicLevel r n st))"
  "keepsFlags st (state_of (setCurrentMic r so st))"
  "keepsFlags st (state_of (setCurrentSpeaker r so st))"
  "keepsFlags st (state_of (setCurrentWebcam r so st))"
  "keepsFlags st (state_of (setMicToState r b st))"
  "keepsFlags st (state_of (setCallActiveToState r b st))"
  "keepsFlags st (state_of (addReceivingFile rf st))"
  "keepsFlags st (state_of (addSendingFileTransfer r cid t x st))"
  "keepsFlags st (state_of (setReceivingFileStatus r cid fs e1 e2 st))"
  "keepsFlags st (state_of (setSendingFileStatus r cid t fs e1 st))"
  "keepsFlags st (state_of (setSendingFileUploaded r cid t u st))"
  "keepsFlags st (state_of (setReceivingFileUploaded r cid u st))"
  "keepsFlags st (state_of (incNewMessagesCount r st))"
  "keepsFlags st (state_of (removeMessageProgress r m st))"
  "keepsFlags st (state_of (setMessageProgressError r m so st))"
  "keepsFlags st (state_of (addMessage msg st))"
  "keepsFlags st (state_of (deleteMessage r m st))"
  "keepsFlags st (state_of (addMessages r ms st))"
  "keepsFlags st (state_of (setSearchTo r se st))"
  "keepsFlags st (state_of (setAllLoaded r st))"
  "keepsFlags st (state_of (setRoomSettings srm st))"
  "keepsFlags st (state_of (setRoomsUsers r us st))"
  "keepsFlags st (state_of (addChangeOnlineEntry rs co st))"
  unfolding setMessageProgress_def setUploadProgress_def setCallOpponent_def
    setOpponentVoice_def addSendingFile_def toggleContainer_def setContainerToState_def
    setCurrentMicLevel_def setCurrentMic_def setCurrentSpeaker_def setCurrentWebcam_def
    setMicToState_def setCallActiveToState_def addReceivingFile_def
    addSendingFileTransfer_def setReceivingFileStatus_def setSendingFileStatus_def
    setSendingFileUploaded_def setReceivingFileUploaded_def incNewMessagesCount_def
    removeMessageProgress_def setMessageProgressError_def addMessage_def deleteMessage_def
    addMessages_def setSearchTo_def setAllLoaded_def setRoomSettings_def setRoomsUsers_def
    addChangeOnlineEntry_def state_of_simps(3)
  by (rule keepsFlags_onMessage keepsFlags_onCall keepsFlags_onSendingTransfer
        keepsFlags_onReceivingFile keepsFlags_run_all
      | (rule keepsFlags_onCallInfo keepsFlags_onRoom, auto split: option.splits)[1])+

lemma keeps_direct:
  "keepsFlags st (state_of (clearMessages st))"
  "keepsFlags st (state_of (deleteRoom r st))"
  "keepsFlags st (state_of (setActiveRoomId r st))"
  "keepsFlags st (state_of (addUser a u st))"
  "keepsFlags st (state_of (logout st))"
  by (auto simp add: clearMessages_def deleteRoom_def setActiveRoomId_def addUser_def
      logout_def keepsFlags_def split: option.splits if_splits)

lemma commit_keepsFlags:
  "\<not> writesFlags m \<Longrightarrow> \<not> installsRooms m \<Longrightarrow> keepsFlags st (state_of (commit a m st))"
  by (cases m)
     (simp_all add: writesFlags_def installsRooms_def keeps_simple keeps_direct
        keeps_setOpponentAnchor keeps_setLocalStreamSrc)

lemma flagsOk_keepsFlags: "keepsFlags st st' \<Longrightarrow> flagsOk st \<Longrightarrow> flagsOk st'"
  unfolding keepsFlags_def flagsOk_def bothOn_def ran_def by fastforce

lemma setVideoToState_Some:
  "roomsDict st rid = Some r \<Longrightarrow>
   setVideoToState rid b st =
     Inr (st\<lparr>roomsDict := (roomsDict st)
            (rid \<mapsto> r\<lparr>callInfo := (callInfo r)\<lparr>ci_showVideo := b, ci_shareScreen := False\<rparr>\<rparr>)\<rparr>)"
  by (simp add: setVideoToState_def onCallInfo_def onRoom_def)

lemma setShareScreenToState_Some:
  "roomsDict st rid = Some r \<Longrightarrow>
   setShareScreenToState rid b st =
     Inr (st\<lparr>roomsDict := (roomsDict st)
            (rid \<mapsto> r\<lparr>callInfo := (callInfo r)\<lparr>ci_shareScreen := b, ci_showVideo := False\<rparr>\<rparr>)\<rparr>)"
  by (simp add: setShareScreenToState_def onCallInfo_def onRoom_def)

lemma setter_None:
  "roomsDict st rid = None \<Longrightarrow> setVideoToState rid b st = Inl (TypeError, st)"
  "roomsDict st rid = None \<Longrightarrow> setShareScreenToState rid b st = Inl (TypeError, st)"
  by (simp_all add: setVideoToState_def setShareScreenToState_def onCallInfo_def onRoom_def)

lemma flagsOk_upd:
  "flagsOk st \<Longrightarrow> \<not> bothOn r \<Longrightarrow> flagsOk (st\<lparr>roomsDict := (roomsDict st)(rid \<mapsto> r)\<rparr>)"
  unfolding flagsOk_def ran_def by auto

lemma flagsOk_setVideoToState:
  "flagsOk st \<Longrightarrow> flagsOk (state_of (setVideoToState rid b st))"
proof (cases "roomsDict st rid")
  case None
  assume "flagsOk st"
  with None show ?thesis by (simp add: setter_None)
next
  case (Some r)
  assume "flagsOk st"
  then show ?thesis
    by (simp add: setVideoToState_Some [OF Some] flagsOk_upd bothOn_def)
qed

lemma flagsOk_setShareScreenToState:
  "flagsOk st \<Longrightarrow> flagsOk (state_of (setShareScreenToState rid b st))"
proof (cases "roomsDict st rid")
  case None
  assume "flagsOk st"
  with None show ?thesis by (simp add: setter_None)
next
  case (Some r)
  assume "flagsOk st"
  then show ?thesis
    by (simp add: setShareScreenToState_Some [OF Some] flagsOk_upd bothOn_def)
qed

lemma commit_flagsOk:
  assumes ok: "flagsOk st" and payload: "\<forall>r \<in> payloadRooms m. \<not> bothOn r"
  shows "flagsOk (state_of (commit a m st))"
proof (cases "writesFlags m \<or> installsRooms m")
  case False
  with commit_keepsFlags [of m st a] ok show ?thesis
    by (auto intro: flagsOk_keepsFlags)
next
  case True
  then show ?thesis
    using ok payload
    by (cases m)
       (simp_all add: writesFlags_def installsRooms_def flagsOk_setVideoToState
          flagsOk_setShareScreenToState payloadRooms_def setRooms_def init_def addRoom_def
          flagsOk_upd, simp_all add: flagsOk_def)
qed

lemma commit_all_flagsOk:
  "flagsOk st \<Longrightarrow> \<forall>m \<in> set ms. \<forall>r \<in> payloadRooms m. \<not> bothOn r \<Longrightarrow>
   flagsOk (commit_all a ms st)"
proof (induction ms arbitrary: st)
  case Nil
  then show ?case by (simp add: commit_all_def)
next
  case (Cons m ms)
  from Cons.prems have "flagsOk (state_of (commit a m st))"
    by (intro commit_flagsOk) simp_all
  with Cons.prems have "flagsOk (commit_all a ms (state_of (commit a m st)))"
    by (intro Cons.IH) simp_all
  then show ?case by (simp add: commit_all_def)
qed

text \<open>
  C10, as the spec states it, fails: the two setters are not the only mutations that
  can change the flags of a room.  \<open>addRoom\<close> installs the room object of its
  payload as it is; given a room with both flags set, it turns a store that satisfies
  the invariant into one that does not.
\<close>

theorem C10_addRoom_breaks_invariant:
  "flagsOk sampleStore
   \<and> bothOn sampleRoomBothOn
   \<and> roomsDict (state_of (commit 1 (AddRoom sampleRoomBothOn) sampleStore)) 2 =
       Some sampleRoomBothOn
   \<and> \<not> flagsOk (state_of (commit 1 (AddRoom sampleRoomBothOn) sampleStore))"
proof -
  have ok: "flagsOk sampleStore"
    by (simp add: flagsOk_def sampleStore_def bothOn_def getRoomsBaseDict_def)
  have both: "bothOn sampleRoomBothOn"
    by (simp add: sampleRoomBothOn_def bothOn_def getRoomsBaseDict_def)
  have at2: "roomsDict (state_of (commit 1 (AddRoom sampleRoomBothOn) sampleStore)) 2 =
      Some sampleRoomBothOn"
    by (simp add: addRoom_def sampleRoomBothOn_def getRoomsBaseDict_def)
  from at2 have "sampleRoomBothOn
      \<in> ran (roomsDict (state_of (commit 1 (AddRoom sampleRoomBothOn) sampleStore)))"
    by (rule ranI)
  with both have "\<not> flagsOk (state_of (commit 1 (AddRoom sampleRoomBothOn) sampleStore))"
    unfolding flagsOk_def by blast
  with ok both at2 show ?thesis by blast
qed

text \<open>
  C10, amended: a room built by \<open>getRoomsBaseDict\<close> has \<open>showVideo\<close> set and
  \<open>shareScreen\<close> clear; \<open>setVideoToState\<close> on an existing room sets
  \<open>showVideo\<close> to the given state and clears \<open>shareScreen\<close>;
  \<open>setShareScreenToState\<close> sets \<open>shareScreen\<close> to the given state and clears
  \<open>showVideo\<close>; every mutation other than these two setters and the three that
  install room objects from their payload (\<open>setRooms\<close>, \<open>init\<close>,
  \<open>addRoom\<close>) leaves the two flags of every room as they were; so every mutation
  preserves the invariant that the two flags are never both set, provided the room
  objects in its payload satisfy it, and so does every sequence of such mutations.
\<close>

theorem C10_call_flags_invariant:
  "ci_showVideo (callInfo (getRoomsBaseDict rid0 vol notif nm us old))
   \<and> \<not> ci_shareScreen (callInfo (getRoomsBaseDict rid0 vol notif nm us old))
   \<and> (roomsDict st rid = Some r \<longrightarrow>
        setVideoToState rid b st =
          Inr (st\<lparr>roomsDict := (roomsDict st)
                 (rid \<mapsto> r\<lparr>callInfo := (callInfo r)\<lparr>ci_showVideo := b,
                                                     ci_shareScreen := False\<rparr>\<rparr>)\<rparr>))
   \<and> (roomsDict st rid = Some r \<longrightarrow>
        setShareScreenToState rid b st =
          Inr (st\<lparr>roomsDict := (roomsDict st)
                 (rid \<mapsto> r\<lparr>callInfo := (callInfo r)\<lparr>ci_shareScreen := b,
                                                     ci_showVideo := False\<rparr>\<rparr>)\<rparr>))
   \<and> (\<not> writesFlags m \<and> \<not> installsRooms m \<longrightarrow> keepsFlags st (state_of (commit a m st)))
   \<and> (flagsOk st \<and> (\<forall>x \<in> payloadRooms m. \<not> bothOn x) \<longrightarrow>
        flagsOk (state_of (commit a m st)))
   \<and> (flagsOk st \<and> (\<forall>x \<in> set ms. \<forall>y \<in> payloadRooms x. \<not> bothOn y) \<longrightarrow>
        flagsOk (commit_all a ms st))"
  by (simp add: getRoomsBaseDict_def setVideoToState_Some setShareScreenToState_Some
      commit_keepsFlags commit_flagsOk commit_all_flagsOk)

theorem C10_call_flags_invariant_witness:
  "roomsDict sampleStore 1 = Some (getRoomsBaseDict 1 100 True ''main'' [7] None)
   \<and> (\<exists>st'. setShareScreenToState 1 True sampleStore = Inr st'
          \<and> flagsOk st'
          \<and> map_option (\<lambda>x. (ci_showVideo (callInfo x), ci_shareScreen (callInfo x)))
                (roomsDict st' 1) = Some (False, True))
   \<and> keepsFlags sampleStore (state_of (commit 1 (ToggleContainer 1) sampleStore))
   \<and> flagsOk (state_of (commit 1 (AddRoom (getRoomsBaseDict 2 100 True ''side'' [7] None))
                 sampleStore))
   \<and> flagsOk (commit_all 1 [SetShareScreenToState 1 True, SetVideoToState 1 True,
                 ToggleContainer 3] sampleStore)"
proof -
  let ?r = "getRoomsBaseDict 1 100 True ''main'' [7] None"
  have r: "roomsDict sampleStore 1 = Some ?r" by (simp add: sampleStore_def)
  have ok: "flagsOk sampleStore"
    by (simp add: flagsOk_def sampleStore_def bothOn_def getRoomsBaseDict_def)
  have nw: "\<not> writesFlags (ToggleContainer 1) \<and> \<not> installsRooms (ToggleContainer 1)"
    by (simp add: writesFlags_def installsRooms_def)
  have p1: "\<forall>x \<in> payloadRooms (SetShareScreenToState 1 True). \<not> bothOn x"
    by (simp add: payloadRooms_def)
  have p2: "\<forall>x \<in> payloadRooms (AddRoom (getRoomsBaseDict 2 100 True ''side'' [7] None)).
      \<not> bothOn x"
    by (simp add: payloadRooms_def bothOn_def getRoomsBaseDict_def)
  have p3: "\<forall>x \<in> set [SetShareScreenToState 1 True, SetVideoToState 1 True,
      ToggleContainer 3]. \<forall>y \<in> payloadRooms x. \<not> bothOn y"
    by (simp add: payloadRooms_def)
  note t1 = C10_call_flags_invariant [where st = sampleStore and rid = 1 and r = ?r
      and b = True and m = "SetShareScreenToState 1 True" and a = 1]
  note t2 = C10_call_flags_invariant [where st = sampleStore and rid = 1 and r = ?r
      and b = True and m = "ToggleContainer 1" and a = 1]
  note t3 = C10_call_flags_invariant [where st = sampleStore and rid = 1 and r = ?r
      and b = True and m = "AddRoom (getRoomsBaseDict 2 100 True ''side'' [7] None)"
      and a = 1]
  note t4 = C10_call_flags_invariant [where st = sampleStore and a = 1
      and ms = "[SetShareScreenToState 1 True, SetVideoToState 1 True, ToggleContainer 3]"]
  from t1 r have eq: "setShareScreenToState 1 True sampleStore =
      Inr (sampleStore\<lparr>roomsDict := (roomsDict sampleStore)
             (1 \<mapsto> ?r\<lparr>callInfo := (callInfo ?r)\<lparr>ci_shareScreen := True,
                                                   ci_showVideo := False\<rparr>\<rparr>)\<rparr>)"
    by blast
  from t1 ok p1 have "flagsOk (state_of (commit 1 (SetShareScreenToState 1 True) sampleStore))"
    by blast
  then have a: "\<exists>st'. setShareScreenToState 1 True sampleStore = Inr st'
          \<and> flagsOk st'
          \<and> map_option (\<lambda>x. (ci_showVideo (callInfo x), ci_shareScreen (callInfo x)))
                (roomsDict st' 1) = Some (False, True)"
    by (simp add: eq)
  from t2 nw have b: "keepsFlags sampleStore (state_of (commit 1 (ToggleContainer 1) sampleStore))"
    by blast
  from t3 ok p2 have c: "flagsOk (state_of (commit 1
      (AddRoom (getRoomsBaseDict 2 100 True ''side'' [7] None)) sampleStore))"
    by blast
  from t4 ok p3 have d: "flagsOk (commit_all 1 [SetShareScreenToState 1 True,
      SetVideoToState 1 True, ToggleContainer 3] sampleStore)"
    by blast
  from r a b c d show ?thesis by blast
qed

end
